theory Spec2Isabelle
  imports Main "HOL-Library.Log_Nat"
begin

section \<open>Notification adapters: the \<open>Update\<close> hook\<close>

text \<open>
  Every adapter keeps its configuration in private fields of a \<open>Service\<close> struct and
  replaces them in \<open>Update(newConfig []interface{})\<close>. The sources hold ten such methods:
  telegram, slack, opsgenie, pagerduty, alerta, sensu, talk, hipchat, and two versions
  of smtp. The \<open>Config\<close> struct of each package is declared in a file that is not part of
  the sources at hand; the records below carry exactly the fields that the service files
  read. The mutex and the logger play no part in the value computed and are left out of
  the state.
\<close>

record telegram_config =
  tc_ChatId :: string
  tc_ParseMode :: string
  tc_DisableWebPagePreview :: bool
  tc_DisableNotification :: bool
  tc_URL :: string
  tc_Token :: string
  tc_Global :: bool
  tc_StateChangesOnly :: bool

record slack_config =
  sc_Channel :: string
  sc_URL :: string
  sc_Global :: bool
  sc_StateChangesOnly :: bool

record opsgenie_config =
  oc_Enabled :: bool
  oc_APIKey :: string
  oc_Teams :: "string list"
  oc_Recipients :: "string list"
  oc_URL :: string
  oc_RecoveryURL :: string
  oc_Global :: bool

record pagerduty_config =
  pc_ServiceKey :: string
  pc_URL :: string
  pc_Global :: bool

record alerta_config =
  ac_URL :: string
  ac_Token :: string
  ac_Environment :: string
  ac_Origin :: string

record sensu_config =
  nc_Enabled :: bool
  nc_Addr :: string
  nc_Source :: string

record talk_config =
  kc_Enabled :: bool
  kc_URL :: string
  kc_AuthorName :: string

record hipchat_config =
  hc_Enabled :: bool
  hc_Room :: string
  hc_Token :: string
  hc_URL :: string
  hc_Global :: bool
  hc_StateChangesOnly :: bool

record smtp_config =
  mc_Enabled :: bool
  mc_Host :: string
  mc_Port :: int
  mc_Username :: string
  mc_Password :: string
  mc_NoVerify :: bool
  mc_Global :: bool
  mc_StateChangesOnly :: bool
  mc_From :: string
  mc_To :: "string list"
  mc_IdleTimeout :: int

text \<open>
  A value of type \<open>interface{}\<close> as the adapters see it: the \<open>Config\<close> of one of the
  packages, the nil interface, or a value of any other dynamic type (named by its type,
  for instance a pointer to a \<open>Config\<close>).
\<close>

datatype dyn =
    DynTelegramConfig telegram_config
  | DynSlackConfig slack_config
  | DynOpsgenieConfig opsgenie_config
  | DynPagerdutyConfig pagerduty_config
  | DynAlertaConfig alerta_config
  | DynSensuConfig sensu_config
  | DynTalkConfig talk_config
  | DynHipchatConfig hipchat_config
  | DynSmtpConfig smtp_config
  | DynNil
  | DynOther string

datatype update_error =
    ExpectedOneConfig nat
  | UnexpectedConfigType dyn
  | MissingFromAddress

record telegram_service =
  ts_chatId :: string
  ts_parseMode :: string
  ts_disableWebPagePreview :: bool
  ts_disableNotification :: bool
  ts_url :: string
  ts_global :: bool
  ts_stateChangesOnly :: bool

record slack_service =
  ss_channel :: string
  ss_url :: string
  ss_global :: bool
  ss_stateChangesOnly :: bool

record opsgenie_service =
  os_enabled :: bool
  os_apikey :: string
  os_teams :: "string list"
  os_recipients :: "string list"
  os_url :: string
  os_recovery_url :: string
  os_global :: bool

record pagerduty_service =
  ps_serviceKey :: string
  ps_url :: string
  ps_global :: bool

record alerta_service =
  as_url :: string
  as_token :: string
  as_environment :: string
  as_origin :: string

record sensu_service =
  ns_enabled :: bool
  ns_addr :: string
  ns_source :: string

record talk_service =
  ks_enabled :: bool
  ks_url :: string
  ks_authorName :: string

record hipchat_service =
  hs_enabled :: bool
  hs_room :: string
  hs_token :: string
  hs_url :: string
  hs_global :: bool
  hs_stateChangesOnly :: bool

text \<open>
  The smtp service keeps the whole \<open>Config\<close>. What it does besides is kept in counters:
  the \<open>runMailer\<close> goroutines it has started, and the signals it has sent on the \<open>mail\<close>
  channel to have a new dialer made. The later version (\<open>part_003\<close>) has the field
  \<open>running\<close> in addition.
\<close>

record smtp_service =
  ms_c :: smtp_config
  ms_mailers :: nat
  ms_signals :: nat

record smtp2_service =
  m2_c :: smtp_config
  m2_running :: bool
  m2_mailers :: nat
  m2_signals :: nat

definition telegram_NewService :: "telegram_config \<Rightarrow> telegram_service" where
  "telegram_NewService c =
     \<lparr> ts_chatId = tc_ChatId c,
       ts_parseMode = tc_ParseMode c,
       ts_disableWebPagePreview = tc_DisableWebPagePreview c,
       ts_disableNotification = tc_DisableNotification c,
       ts_url = tc_URL c @ tc_Token c @ ''/sendMessage'',
       ts_global = tc_Global c,
       ts_stateChangesOnly = tc_StateChangesOnly c \<rparr>"

definition slack_NewService :: "slack_config \<Rightarrow> slack_service" where
  "slack_NewService c =
     \<lparr> ss_channel = sc_Channel c,
       ss_url = sc_URL c,
       ss_global = sc_Global c,
       ss_stateChangesOnly = sc_StateChangesOnly c \<rparr>"

definition opsgenie_NewService :: "opsgenie_config \<Rightarrow> opsgenie_service" where
  "opsgenie_NewService c =
     \<lparr> os_enabled = oc_Enabled c,
       os_apikey = oc_APIKey c,
       os_teams = oc_Teams c,
       os_recipients = oc_Recipients c,
       os_url = oc_URL c @ ''/'',
       os_recovery_url = oc_RecoveryURL c @ ''/'',
       os_global = oc_Global c \<rparr>"

definition pagerduty_NewService :: "pagerduty_config \<Rightarrow> pagerduty_service" where
  "pagerduty_NewService c =
     \<lparr> ps_serviceKey = pc_ServiceKey c,
       ps_url = pc_URL c,
       ps_global = pc_Global c \<rparr>"

definition alerta_NewService :: "alerta_config \<Rightarrow> alerta_service" where
  "alerta_NewService c =
     \<lparr> as_url = ac_URL c,
       as_token = ac_Token c,
       as_environment = ac_Environment c,
       as_origin = ac_Origin c \<rparr>"

definition sensu_NewService :: "sensu_config \<Rightarrow> sensu_service" where
  "sensu_NewService c =
     \<lparr> ns_enabled = nc_Enabled c,
       ns_addr = nc_Addr c,
       ns_source = nc_Source c \<rparr>"

definition talk_NewService :: "talk_config \<Rightarrow> talk_service" where
  "talk_NewService c =
     \<lparr> ks_enabled = kc_Enabled c,
       ks_url = kc_URL c,
       ks_authorName = kc_AuthorName c \<rparr>"

definition hipchat_NewService :: "hipchat_config \<Rightarrow> hipchat_service" where
  "hipchat_NewService c =
     \<lparr> hs_enabled = hc_Enabled c,
       hs_room = hc_Room c,
       hs_token = hc_Token c,
       hs_url = hc_URL c,
       hs_global = hc_Global c,
       hs_stateChangesOnly = hc_StateChangesOnly c \<rparr>"

definition smtp_NewService :: "smtp_config \<Rightarrow> smtp_service" where
  "smtp_NewService c = \<lparr> ms_c = c, ms_mailers = 0, ms_signals = 0 \<rparr>"

definition smtp2_NewService :: "smtp_config \<Rightarrow> smtp2_service" where
  "smtp2_NewService c = \<lparr> m2_c = c, m2_running = False, m2_mailers = 0, m2_signals = 0 \<rparr>"

text \<open>
  \<open>Update\<close> returns the error (\<open>None\<close> for Go's nil error) together with the service
  as it is left behind.
\<close>

fun telegram_Update :: "telegram_service \<Rightarrow> dyn list \<Rightarrow> update_error option \<times> telegram_service" where
  "telegram_Update s newConfig =
     (if length newConfig \<noteq> 1 then (Some (ExpectedOneConfig (length newConfig)), s)
      else case hd newConfig of
             DynTelegramConfig c \<Rightarrow>
               (None,
                s\<lparr> ts_chatId := tc_ChatId c,
                   ts_parseMode := tc_ParseMode c,
                   ts_disableWebPagePreview := tc_DisableWebPagePreview c,
                   ts_disableNotification := tc_DisableNotification c,
                   ts_url := tc_URL c @ tc_Token c @ ''/sendMessage'',
                   ts_global := tc_Global c,
                   ts_stateChangesOnly := tc_StateChangesOnly c \<rparr>)
           | other \<Rightarrow> (Some (UnexpectedConfigType other), s))"

fun slack_Update :: "slack_service \<Rightarrow> dyn list \<Rightarrow> update_error option \<times> slack_service" where
  "slack_Update s newConfig =
     (if length newConfig \<noteq> 1 then (Some (ExpectedOneConfig (length newConfig)), s)
      else case hd newConfig of
             DynSlackConfig c \<Rightarrow>
               (None,
                s\<lparr> ss_channel := sc_Channel c,
                   ss_url := sc_URL c,
                   ss_global := sc_Global c,
                   ss_stateChangesOnly := sc_StateChangesOnly c \<rparr>)
           | other \<Rightarrow> (Some (UnexpectedConfigType other), s))"

fun opsgenie_Update :: "opsgenie_service \<Rightarrow> dyn list \<Rightarrow> update_error option \<times> opsgenie_service" where
  "opsgenie_Update s newConfig =
     (if length newConfig \<noteq> 1 then (Some (ExpectedOneConfig (length newConfig)), s)
      else case hd newConfig of
             DynOpsgenieConfig c \<Rightarrow>
               (None,
                s\<lparr> os_teams := oc_Teams c,
                   os_recipients := oc_Recipients c,
                   os_apikey := oc_APIKey c,
                   os_url := oc_URL c @ ''/'',
                   os_recovery_url := oc_RecoveryURL c @ ''/'',
                   os_global := oc_Global c \<rparr>)
           | other \<Rightarrow> (Some (UnexpectedConfigType other), s))"

fun pagerduty_Update :: "pagerduty_service \<Rightarrow> dyn list \<Rightarrow> update_error option \<times> pagerduty_service" where
  "pagerduty_Update s newConfig =
     (if length newConfig \<noteq> 1 then (Some (ExpectedOneConfig (length newConfig)), s)
      else case hd newConfig of
             DynPagerdutyConfig c \<Rightarrow>
               (None,
                s\<lparr> ps_serviceKey := pc_ServiceKey c,
                   ps_url := pc_URL c,
                   ps_global := pc_Global c \<rparr>)
           | other \<Rightarrow> (Some (UnexpectedConfigType other), s))"

fun alerta_Update :: "alerta_service \<Rightarrow> dyn list \<Rightarrow> update_error option \<times> alerta_service" where
  "alerta_Update s newConfig =
     (if length newConfig \<noteq> 1 then (Some (ExpectedOneConfig (length newConfig)), s)
      else case hd newConfig of
             DynAlertaConfig c \<Rightarrow>
               (None,
                s\<lparr> as_url := ac_URL c,
                   as_token := ac_Token c,
                   as_environment := ac_Environment c,
                   as_origin := ac_Origin c \<rparr>)
           | other \<Rightarrow> (Some (UnexpectedConfigType other), s))"

fun sensu_Update :: "sensu_service \<Rightarrow> dyn list \<Rightarrow> update_error option \<times> sensu_service" where
  "sensu_Update s newConfig =
     (if length newConfig \<noteq> 1 then (Some (ExpectedOneConfig (length newConfig)), s)
      else case hd newConfig of
             DynSensuConfig c \<Rightarrow>
               (None,
                s\<lparr> ns_addr := nc_Addr c,
                   ns_source := nc_Source c \<rparr>)
           | other \<Rightarrow> (Some (UnexpectedConfigType other), s))"

fun talk_Update :: "talk_service \<Rightarrow> dyn list \<Rightarrow> update_error option \<times> talk_service" where
  "talk_Update s newConfig =
     (if length newConfig \<noteq> 1 then (Some (ExpectedOneConfig (length newConfig)), s)
      else case hd newConfig of
             DynTalkConfig c \<Rightarrow>
               (None,
                s\<lparr> ks_url := kc_URL c,
                   ks_authorName := kc_AuthorName c \<rparr>)
           | other \<Rightarrow> (Some (UnexpectedConfigType other), s))"

fun hipchat_Update :: "hipchat_service \<Rightarrow> dyn list \<Rightarrow> update_error option \<times> hipchat_service" where
  "hipchat_Update s newConfig =
     (if length newConfig \<noteq> 1 then (Some (ExpectedOneConfig (length newConfig)), s)
      else case hd newConfig of
             DynHipchatConfig c \<Rightarrow>
               (None,
                s\<lparr> hs_enabled := hc_Enabled c,
                   hs_room := hc_Room c,
                   hs_token := hc_Token c,
                   hs_url := hc_URL c,
                   hs_global := hc_Global c,
                   hs_stateChangesOnly := hc_StateChangesOnly c \<rparr>)
           | other \<Rightarrow> (Some (UnexpectedConfigType other), s))"

text \<open>
  The smtp service of \<open>services/smtp\<close>: when the new configuration enables a service that
  was disabled, a missing \<open>From\<close> address is an error, found after the configuration has
  been stored.
\<close>

fun smtp_Update :: "smtp_service \<Rightarrow> dyn list \<Rightarrow> update_error option \<times> smtp_service" where
  "smtp_Update s newConfig =
     (if length newConfig \<noteq> 1 then (Some (ExpectedOneConfig (length newConfig)), s)
      else case hd newConfig of
             DynSmtpConfig c \<Rightarrow>
               (let nowEnabled = (\<not> mc_Enabled (ms_c s) \<and> mc_Enabled c);
                    s1 = s\<lparr> ms_c := c \<rparr>
                in if nowEnabled \<and> mc_From c = [] then (Some MissingFromAddress, s1)
                   else
                     (let s2 = (if nowEnabled then s1\<lparr> ms_mailers := ms_mailers s1 + 1 \<rparr> else s1)
                      in (None, s2\<lparr> ms_signals := ms_signals s2 + 1 \<rparr>)))
           | other \<Rightarrow> (Some (UnexpectedConfigType other), s))"

text \<open>The smtp service of \<open>part_003\<close>.\<close>

fun smtp2_Update :: "smtp2_service \<Rightarrow> dyn list \<Rightarrow> update_error option \<times> smtp2_service" where
  "smtp2_Update s newConfig =
     (if length newConfig \<noteq> 1 then (Some (ExpectedOneConfig (length newConfig)), s)
      else case hd newConfig of
             DynSmtpConfig c \<Rightarrow>
               (let previousEnabled = mc_Enabled (m2_c s);
                    s1 = s\<lparr> m2_c := c \<rparr>;
                    s2 = (if \<not> m2_running s1 \<and> \<not> previousEnabled \<and> mc_Enabled (m2_c s1)
                          then s1\<lparr> m2_mailers := m2_mailers s1 + 1, m2_running := True \<rparr>
                          else s1)
                in (None, if mc_Enabled c then s2\<lparr> m2_signals := m2_signals s2 + 1 \<rparr> else s2))
           | other \<Rightarrow> (Some (UnexpectedConfigType other), s))"

text \<open>The type assertion \<open>newConfig[0].(Config)\<close> of each package.\<close>

definition is_telegram_config :: "dyn \<Rightarrow> bool" where
  "is_telegram_config d = (case d of DynTelegramConfig c \<Rightarrow> True | _ \<Rightarrow> False)"

definition is_slack_config :: "dyn \<Rightarrow> bool" where
  "is_slack_config d = (case d of DynSlackConfig c \<Rightarrow> True | _ \<Rightarrow> False)"

definition is_opsgenie_config :: "dyn \<Rightarrow> bool" where
  "is_opsgenie_config d = (case d of DynOpsgenieConfig c \<Rightarrow> True | _ \<Rightarrow> False)"

definition is_pagerduty_config :: "dyn \<Rightarrow> bool" where
  "is_pagerduty_config d = (case d of DynPagerdutyConfig c \<Rightarrow> True | _ \<Rightarrow> False)"

definition is_alerta_config :: "dyn \<Rightarrow> bool" where
  "is_alerta_config d = (case d of DynAlertaConfig c \<Rightarrow> True | _ \<Rightarrow> False)"

definition is_sensu_config :: "dyn \<Rightarrow> bool" where
  "is_sensu_config d = (case d of DynSensuConfig c \<Rightarrow> True | _ \<Rightarrow> False)"

definition is_talk_config :: "dyn \<Rightarrow> bool" where
  "is_talk_config d = (case d of DynTalkConfig c \<Rightarrow> True | _ \<Rightarrow> False)"

definition is_hipchat_config :: "dyn \<Rightarrow> bool" where
  "is_hipchat_config d = (case d of DynHipchatConfig c \<Rightarrow> True | _ \<Rightarrow> False)"

definition is_smtp_config :: "dyn \<Rightarrow> bool" where
  "is_smtp_config d = (case d of DynSmtpConfig c \<Rightarrow> True | _ \<Rightarrow> False)"

text \<open>
  The argument lists that the claim is about: not exactly one element, or one element
  that is not of the adapter's own \<open>Config\<close> type.
\<close>

definition bad_arguments :: "(dyn \<Rightarrow> bool) \<Rightarrow> dyn list \<Rightarrow> bool" where
  "bad_arguments own cs = (length cs \<noteq> 1 \<or> \<not> own (hd cs))"

text \<open>A service of each adapter, as \<open>NewService\<close> makes it.\<close>

definition telegram_example :: telegram_service where
  "telegram_example =
     telegram_NewService
       \<lparr> tc_ChatId = ''12345678'', tc_ParseMode = ''Markdown'', tc_DisableWebPagePreview = False,
         tc_DisableNotification = False, tc_URL = ''https://api.telegram.org/bot'',
         tc_Token = ''abc'', tc_Global = True, tc_StateChangesOnly = False \<rparr>"

definition slack_example :: slack_service where
  "slack_example =
     slack_NewService
       \<lparr> sc_Channel = ''#alerts'', sc_URL = ''https://hooks.slack.com/x'', sc_Global = False,
         sc_StateChangesOnly = True \<rparr>"

definition opsgenie_example :: opsgenie_service where
  "opsgenie_example =
     opsgenie_NewService
       \<lparr> oc_Enabled = True, oc_APIKey = ''key'', oc_Teams = [''ops''], oc_Recipients = [],
         oc_URL = ''https://api.opsgenie.com/v1/json/alert'',
         oc_RecoveryURL = ''https://api.opsgenie.com/v1/json/alert/note'', oc_Global = False \<rparr>"

definition pagerduty_example :: pagerduty_service where
  "pagerduty_example =
     pagerduty_NewService
       \<lparr> pc_ServiceKey = ''key'', pc_URL = ''https://events.pagerduty.com'', pc_Global = True \<rparr>"

definition alerta_example :: alerta_service where
  "alerta_example =
     alerta_NewService
       \<lparr> ac_URL = ''http://alerta'', ac_Token = ''tok'', ac_Environment = ''Production'',
         ac_Origin = ''kapacitor'' \<rparr>"

definition sensu_example :: sensu_service where
  "sensu_example =
     sensu_NewService \<lparr> nc_Enabled = True, nc_Addr = ''sensu:3030'', nc_Source = ''Kapacitor'' \<rparr>"

definition talk_example :: talk_service where
  "talk_example =
     talk_NewService \<lparr> kc_Enabled = True, kc_URL = ''https://jianliao.com/x'', kc_AuthorName = ''bot'' \<rparr>"

definition hipchat_example :: hipchat_service where
  "hipchat_example =
     hipchat_NewService
       \<lparr> hc_Enabled = True, hc_Room = ''ops'', hc_Token = ''tok'',
         hc_URL = ''https://x.hipchat.com/v2/room'', hc_Global = False,
         hc_StateChangesOnly = False \<rparr>"

definition smtp_example_config :: smtp_config where
  "smtp_example_config =
     \<lparr> mc_Enabled = True, mc_Host = ''localhost'', mc_Port = 25, mc_Username = [],
       mc_Password = [], mc_NoVerify = False, mc_Global = False, mc_StateChangesOnly = False,
       mc_From = ''kapacitor@example.com'', mc_To = [''oncall@example.com''],
       mc_IdleTimeout = 30000000000 \<rparr>"

section \<open>Go values as the reflection API sees them\<close>

datatype kind =
    KInvalid | KBool
  | KInt | KInt8 | KInt16 | KInt32 | KInt64
  | KUint | KUint8 | KUint16 | KUint32 | KUint64 | KUintptr
  | KFloat32 | KFloat64 | KComplex64 | KComplex128
  | KArray | KChan | KFunc | KInterface | KMap | KPtr | KSlice | KString | KStruct
  | KUnsafePointer

fun kind_num :: "kind \<Rightarrow> nat" where
  "kind_num KInvalid = 0" | "kind_num KBool = 1"
| "kind_num KInt = 2" | "kind_num KInt8 = 3" | "kind_num KInt16 = 4" | "kind_num KInt32 = 5"
| "kind_num KInt64 = 6"
| "kind_num KUint = 7" | "kind_num KUint8 = 8" | "kind_num KUint16 = 9" | "kind_num KUint32 = 10"
| "kind_num KUint64 = 11" | "kind_num KUintptr = 12"
| "kind_num KFloat32 = 13" | "kind_num KFloat64 = 14"
| "kind_num KComplex64 = 15" | "kind_num KComplex128 = 16"
| "kind_num KArray = 17" | "kind_num KChan = 18" | "kind_num KFunc = 19"
| "kind_num KInterface = 20" | "kind_num KMap = 21" | "kind_num KPtr = 22"
| "kind_num KSlice = 23" | "kind_num KString = 24" | "kind_num KStruct = 25"
| "kind_num KUnsafePointer = 26"

definition isNumericKind :: "kind \<Rightarrow> bool" where
  "isNumericKind k = (kind_num KInt \<le> kind_num k \<and> kind_num k \<le> kind_num KFloat64)"

definition isIntKind :: "kind \<Rightarrow> bool" where
  "isIntKind k = (kind_num KInt \<le> kind_num k \<and> kind_num k \<le> kind_num KInt64)"

definition isUintKind :: "kind \<Rightarrow> bool" where
  "isUintKind k = (kind_num KUint \<le> kind_num k \<and> kind_num k \<le> kind_num KUint64)"

definition isFloatKind :: "kind \<Rightarrow> bool" where
  "isFloatKind k = (k = KFloat32 \<or> k = KFloat64)"

type_synonym tag = "(string \<times> string) list"

definition Tag_Get :: "tag \<Rightarrow> string \<Rightarrow> string" where
  "Tag_Get t k = (case map_of t k of None \<Rightarrow> [] | Some v \<Rightarrow> v)"

datatype gotype =
    TScalar string kind
  | TSlice string gotype
  | TArray string nat gotype
  | TMap string gotype gotype
  | TPtr gotype
  | TStruct string "(string \<times> tag \<times> gotype) list"
  | TInterface string

fun type_kind :: "gotype \<Rightarrow> kind" where
  "type_kind (TScalar n k) = k"
| "type_kind (TSlice n t) = KSlice"
| "type_kind (TArray n l t) = KArray"
| "type_kind (TMap n k t) = KMap"
| "type_kind (TPtr t) = KPtr"
| "type_kind (TStruct n fs) = KStruct"
| "type_kind (TInterface n) = KInterface"

fun type_name :: "gotype \<Rightarrow> string" where
  "type_name (TScalar n k) = n"
| "type_name (TSlice n t) = n"
| "type_name (TArray n l t) = n"
| "type_name (TMap n k t) = n"
| "type_name (TPtr t) = []"
| "type_name (TStruct n fs) = n"
| "type_name (TInterface n) = n"

fun predeclared_name :: "kind \<Rightarrow> string" where
  "predeclared_name KBool = ''bool''"
| "predeclared_name KInt = ''int''" | "predeclared_name KInt8 = ''int8''"
| "predeclared_name KInt16 = ''int16''" | "predeclared_name KInt32 = ''int32''"
| "predeclared_name KInt64 = ''int64''"
| "predeclared_name KUint = ''uint''" | "predeclared_name KUint8 = ''uint8''"
| "predeclared_name KUint16 = ''uint16''" | "predeclared_name KUint32 = ''uint32''"
| "predeclared_name KUint64 = ''uint64''" | "predeclared_name KUintptr = ''uintptr''"
| "predeclared_name KFloat32 = ''float32''" | "predeclared_name KFloat64 = ''float64''"
| "predeclared_name KComplex64 = ''complex64''" | "predeclared_name KComplex128 = ''complex128''"
| "predeclared_name KString = ''string''"
| "predeclared_name k = []"

definition predeclared :: "kind \<Rightarrow> gotype" where
  "predeclared k = TScalar (predeclared_name k) k"

fun underlying :: "gotype \<Rightarrow> gotype" where
  "underlying (TScalar n k) = TScalar (predeclared_name k) k"
| "underlying (TSlice n t) = TSlice [] t"
| "underlying (TArray n l t) = TArray [] l t"
| "underlying (TMap n k t) = TMap [] k t"
| "underlying (TPtr t) = TPtr t"
| "underlying (TStruct n fs) = TStruct [] fs"
| "underlying (TInterface n) = TInterface n"

definition is_named :: "gotype \<Rightarrow> bool" where
  "is_named t = (type_name t \<noteq> [])"

definition assignable :: "gotype \<Rightarrow> gotype \<Rightarrow> bool" where
  "assignable src dst =
     (src = dst \<or> (underlying src = underlying dst \<and> (\<not> is_named src \<or> \<not> is_named dst)))"

text \<open>
  A floating-point number: a finite value, as the rational number it stands for, an
  infinity, or not a number. The sign of zero is not kept.
\<close>

datatype gofloat = Finite rat | PosInf | NegInf | NaN

datatype val =
    VBool bool
  | VInt int
  | VUint int
  | VFloat gofloat
  | VComplex rat rat
  | VString string
  | VRef "nat option"
  | VSlice "val list option"
  | VArray "val list"
  | VMap "(val \<times> val) list option"
  | VPtr "val option"
  | VStruct "val list"
  | VIface "(gotype \<times> val) option"

fun zero :: "gotype \<Rightarrow> val"
and zero_fields :: "(string \<times> tag \<times> gotype) list \<Rightarrow> val list" where
  "zero (TScalar n k) =
     (if k = KBool then VBool False
      else if isIntKind k then VInt 0
      else if isUintKind k \<or> k = KUintptr then VUint 0
      else if isFloatKind k then VFloat (Finite 0)
      else if k = KComplex64 \<or> k = KComplex128 then VComplex 0 0
      else if k = KString then VString []
      else VRef None)"
| "zero (TSlice n t) = VSlice None"
| "zero (TArray n l t) = VArray (replicate l (zero t))"
| "zero (TMap n k t) = VMap None"
| "zero (TPtr t) = VPtr None"
| "zero (TStruct n fs) = VStruct (zero_fields fs)"
| "zero (TInterface n) = VIface None"
| "zero_fields [] = []"
| "zero_fields (f # fs) = zero (snd (snd f)) # zero_fields fs"


subsection \<open>Numbers\<close>

fun bit_size :: "kind \<Rightarrow> nat" where
  "bit_size KInt8 = 8" | "bit_size KUint8 = 8"
| "bit_size KInt16 = 16" | "bit_size KUint16 = 16"
| "bit_size KInt32 = 32" | "bit_size KUint32 = 32"
| "bit_size k = 64"

definition wrap_unsigned :: "nat \<Rightarrow> int \<Rightarrow> int" where
  "wrap_unsigned w x = x mod 2 ^ w"

definition wrap_signed :: "nat \<Rightarrow> int \<Rightarrow> int" where
  "wrap_signed w x = (x + 2 ^ (w - 1)) mod 2 ^ w - 2 ^ (w - 1)"

definition pow2 :: "int \<Rightarrow> rat" where
  "pow2 e = (if 0 \<le> e then 2 ^ nat e else 1 / 2 ^ nat (- e))"

definition ilog2 :: "rat \<Rightarrow> int" where
  "ilog2 x = (let a = fst (quotient_of x); b = snd (quotient_of x);
                  e = int (floorlog 2 (nat a)) - int (floorlog 2 (nat b))
              in if pow2 e \<le> x then e else e - 1)"

definition round_half_even :: "rat \<Rightarrow> int" where
  "round_half_even q =
     (let n = \<lfloor>q\<rfloor>; r = q - of_int n
      in if r < 1 / 2 then n else if 1 / 2 < r then n + 1 else if even n then n else n + 1)"

text \<open>
  Rounding to the nearest float with a significand of \<open>p\<close> bits, ties to even. Below
  \<open>2 ^ emin\<close> the spacing stays that of the smallest normal numbers (the subnormal
  range, with underflow to zero); a result of \<open>2 ^ emax\<close> or more overflows to an infinity.
\<close>

definition fround :: "nat \<Rightarrow> int \<Rightarrow> int \<Rightarrow> rat \<Rightarrow> gofloat" where
  "fround p emin emax x =
     (if x = 0 then Finite 0
      else let m = \<bar>x\<bar>;
               u = pow2 (max (ilog2 m) emin - (int p - 1));
               r = of_int (round_half_even (m / u)) * u
           in if pow2 emax \<le> r then (if 0 < x then PosInf else NegInf)
              else Finite (sgn x * r))"

definition to_float64 :: "gofloat \<Rightarrow> gofloat" where
  "to_float64 f = (case f of Finite x \<Rightarrow> fround 53 (- 1022) 1024 x | _ \<Rightarrow> f)"

definition to_float32 :: "gofloat \<Rightarrow> gofloat" where
  "to_float32 f = (case f of Finite x \<Rightarrow> fround 24 (- 126) 128 x | _ \<Rightarrow> f)"

definition trunc_zero :: "rat \<Rightarrow> int" where
  "trunc_zero r = (if 0 \<le> r then \<lfloor>r\<rfloor> else \<lceil>r\<rceil>)"

datatype err =
    NotSettable
  | WrongType kind kind
  | WrongKind kind kind
  | MismatchedTypes gotype gotype
  | FailedToCopyMapValue err
  | FailedToCopySliceValue err
  | CannotUnmarshal kind kind
  | CannotConvert kind kind
  | CannotConvertString string kind
  | Panic string
  | Recovered string
  | SectionEmpty
  | ElementEmptyOnDelete
  | ElementNotEmptyOnCreate
  | DeleteWithOptions
  | CreateAndDelete
  | InvalidOverride err
  | FailedToApply string err
  | CannotSetOption string err
  | CannotOverrideElementKey string
  | UnknownOptions "string set" string
  | UnknownSection string
  | FailedValidation string
  | FailedToOverride string string err
  | ElementKeyFieldNotString gotype
  | ElementKeyNotString
  | CannotSetElementKey string err
  | ElementKeyNotInOptions string
  | NoFieldForElementKey string
  | CannotCreateWithoutElementKey
  | NoElementKeyTag
  | NoElementKeyForSection string
  | FailedToRetrieveOverrides string string
  | FailedToRetrieveConfigOverrides string

definition SetInt :: "kind \<Rightarrow> int \<Rightarrow> val" where
  "SetInt k i = VInt (wrap_signed (bit_size k) i)"

definition SetUint :: "kind \<Rightarrow> int \<Rightarrow> val" where
  "SetUint k i = VUint (wrap_unsigned (bit_size k) i)"

definition SetFloat :: "kind \<Rightarrow> gofloat \<Rightarrow> val" where
  "SetFloat k f = VFloat (if k = KFloat32 then to_float32 f else f)"

text \<open>
  \<open>reflect.Value.Convert\<close> between numeric kinds never fails. A float becomes an integer
  through \<open>int64\<close> or \<open>uint64\<close>: the fraction is dropped when the result is in range.
  Out of range, and for an infinity or not a number, the Go specification leaves the
  result to the implementation; \<open>platform\<close> stands for what the platform yields then.
\<close>

record platform =
  overflow_int64 :: "gofloat \<Rightarrow> int"
  overflow_uint64 :: "gofloat \<Rightarrow> int"

definition float_to_int64 :: "platform \<Rightarrow> gofloat \<Rightarrow> int" where
  "float_to_int64 P f =
     (case f of
        Finite x \<Rightarrow>
          if - (2 ^ 63) \<le> trunc_zero x \<and> trunc_zero x < 2 ^ 63 then trunc_zero x
          else overflow_int64 P f
      | _ \<Rightarrow> overflow_int64 P f)"

definition float_to_uint64 :: "platform \<Rightarrow> gofloat \<Rightarrow> int" where
  "float_to_uint64 P f =
     (case f of
        Finite x \<Rightarrow>
          if 0 \<le> trunc_zero x \<and> trunc_zero x < 2 ^ 64 then trunc_zero x
          else overflow_uint64 P f
      | _ \<Rightarrow> overflow_uint64 P f)"

definition cvtInt :: "int \<Rightarrow> kind \<Rightarrow> val" where
  "cvtInt x k =
     (if isIntKind k then SetInt k x
      else if isFloatKind k then SetFloat k (to_float64 (Finite (of_int x)))
      else SetUint k x)"

definition cvtFloat :: "platform \<Rightarrow> gofloat \<Rightarrow> kind \<Rightarrow> val" where
  "cvtFloat P f k =
     (if isFloatKind k then SetFloat k f
      else if isIntKind k then SetInt k (float_to_int64 P f)
      else SetUint k (float_to_uint64 P f))"

fun Convert :: "platform \<Rightarrow> val \<Rightarrow> kind \<Rightarrow> err + val" where
  "Convert P (VInt x) k = Inr (cvtInt x k)"
| "Convert P (VUint x) k = Inr (cvtInt x k)"
| "Convert P (VFloat f) k = Inr (cvtFloat P f k)"
| "Convert P v k = Inl (Panic ''reflect.Value.Convert'')"

subsection \<open>strconv\<close>

definition is_digit :: "char \<Rightarrow> bool" where
  "is_digit c = (c \<in> set ''0123456789'')"

definition digit_val :: "char \<Rightarrow> int" where
  "digit_val c = int (of_char c) - 48"

fun digits_val :: "int \<Rightarrow> string \<Rightarrow> int" where
  "digits_val acc [] = acc"
| "digits_val acc (c # cs) = digits_val (acc * 10 + digit_val c) cs"

definition ParseUint :: "string \<Rightarrow> int option" where
  "ParseUint s =
     (if s = [] \<or> \<not> list_all is_digit s then None
      else if digits_val 0 s < 2 ^ 64 then Some (digits_val 0 s) else None)"

definition ParseInt :: "string \<Rightarrow> int option" where
  "ParseInt s =
     (if s = [] then None
      else let neg = (hd s = CHR ''-'');
               rest = (if hd s = CHR ''+'' \<or> hd s = CHR ''-'' then tl s else s)
           in case ParseUint rest of
                None \<Rightarrow> None
              | Some un \<Rightarrow>
                  if \<not> neg \<and> 2 ^ 63 \<le> un then None
                  else if neg \<and> 2 ^ 63 < un then None
                  else Some (if neg then - un else un))"

subsection \<open>The coercer\<close>

record env =
  textUnmarshalers :: "gotype \<Rightarrow> (string \<Rightarrow> val \<Rightarrow> val \<times> string option) option"
  stringers :: "gotype \<Rightarrow> bool"
  ParseFloat :: "string \<Rightarrow> gofloat option"
  arch :: platform

type_synonym rvalue = "(gotype \<times> val) option"

definition rv_Kind :: "rvalue \<Rightarrow> kind" where
  "rv_Kind v = (case v of None \<Rightarrow> KInvalid | Some (t, x) \<Rightarrow> type_kind t)"

definition rv_String :: "gotype \<Rightarrow> val \<Rightarrow> string" where
  "rv_String t v = (case v of VString s \<Rightarrow> s | _ \<Rightarrow> ''<'' @ type_name t @ '' Value>'')"

definition rv_Elem :: "rvalue \<Rightarrow> rvalue" where
  "rv_Elem v = (case v of Some (t, VIface i) \<Rightarrow> i | _ \<Rightarrow> None)"

definition unbox :: "rvalue \<Rightarrow> rvalue" where
  "unbox src = (if rv_Kind src = KInterface then rv_Elem src else src)"

definition parse_into :: "env \<Rightarrow> string \<Rightarrow> kind \<Rightarrow> val option" where
  "parse_into E str dstK =
     (if isIntKind dstK then map_option (SetInt dstK) (ParseInt str)
      else if isUintKind dstK then map_option (SetUint dstK) (ParseUint str)
      else if isFloatKind dstK then map_option (SetFloat dstK) (ParseFloat E str)
      else None)"

definition weakCopyValue_old :: "env \<Rightarrow> rvalue \<Rightarrow> bool \<Rightarrow> gotype \<Rightarrow> val \<Rightarrow> err + val" where
  "weakCopyValue_old E src canSet dt dv =
     (if \<not> canSet then Inl NotSettable
      else let srcK = rv_Kind src; dstK = type_kind dt in
        if srcK = dstK then
          (case src of
             None \<Rightarrow> Inl (Panic ''reflect.Set'')
           | Some (st, sv) \<Rightarrow> if assignable st dt then Inr sv else Inl (Panic ''reflect.Set''))
        else if isNumericKind dstK then
          (if isNumericKind srcK then
             (case src of None \<Rightarrow> Inl (Panic ''reflect.Value.Convert'')
              | Some (st, sv) \<Rightarrow> Convert (arch E) sv dstK)
           else if srcK = KString then
             (case src of None \<Rightarrow> Inl (WrongType srcK dstK)
              | Some (st, sv) \<Rightarrow>
                  (case parse_into E (rv_String st sv) dstK of
                     Some v \<Rightarrow> Inr v
                   | None \<Rightarrow> Inl (WrongType srcK dstK)))
           else Inl (WrongType srcK dstK))
        else Inl (WrongType srcK dstK))"

fun alist_set :: "'a \<Rightarrow> 'b \<Rightarrow> ('a \<times> 'b) list \<Rightarrow> ('a \<times> 'b) list" where
  "alist_set k v [] = [(k, v)]"
| "alist_set k v (p # ps) = (if fst p = k then (k, v) # ps else p # alist_set k v ps)"

definition addrDst :: "gotype \<Rightarrow> val \<Rightarrow> (gotype \<times> val) option" where
  "addrDst dt dv =
     (case dt of
        TPtr t \<Rightarrow> (case dv of VPtr (Some x) \<Rightarrow> Some (t, x) | _ \<Rightarrow> None)
      | _ \<Rightarrow> Some (dt, dv))"

definition put_indirect :: "gotype \<Rightarrow> val \<Rightarrow> val" where
  "put_indirect dt x = (case dt of TPtr t \<Rightarrow> VPtr (Some x) | _ \<Rightarrow> x)"

fun elem_type :: "gotype \<Rightarrow> gotype" where
  "elem_type (TSlice n t) = t"
| "elem_type (TArray n l t) = t"
| "elem_type (TMap n k t) = t"
| "elem_type (TPtr t) = t"
| "elem_type t = t"

fun key_type :: "gotype \<Rightarrow> gotype" where
  "key_type (TMap n k t) = k"
| "key_type t = t"

text \<open>recursion plan\<close>

datatype plan =
    PlanMap gotype "(val \<times> val) list"
  | PlanSlice gotype "val list"
  | PlanDirect

definition copy_plan :: "rvalue \<Rightarrow> bool \<Rightarrow> gotype \<Rightarrow> plan" where
  "copy_plan src canSet dt =
     (case src of
        None \<Rightarrow> PlanDirect
      | Some (st, sv) \<Rightarrow>
          if canSet \<and> type_kind st = type_kind dt \<and> dt \<noteq> st then
            (case sv of
               VMap m \<Rightarrow> if type_kind dt = KMap
                          then PlanMap st (case m of None \<Rightarrow> [] | Some kvs \<Rightarrow> kvs) else PlanDirect
             | VSlice xs \<Rightarrow> if type_kind dt = KSlice
                          then PlanSlice st (case xs of None \<Rightarrow> [] | Some ys \<Rightarrow> ys) else PlanDirect
             | _ \<Rightarrow> PlanDirect)
          else PlanDirect)"

definition copy_direct :: "env \<Rightarrow> rvalue \<Rightarrow> bool \<Rightarrow> gotype \<Rightarrow> val \<Rightarrow> err + val" where
  "copy_direct E src canSet dt dv =
     (if \<not> canSet then Inl NotSettable
      else let srcK = rv_Kind src; dstK = type_kind dt in
        if srcK = dstK then
          (case src of
             None \<Rightarrow> Inl (Recovered ''reflect.Set'')
           | Some (st, sv) \<Rightarrow>
               if dt = st then Inr sv
               else if dstK = KMap then Inl (Recovered ''reflect.Value.MapKeys'')
               else if dstK = KSlice then Inl (Recovered ''reflect.Value.Len'')
               else Inl (MismatchedTypes st dt))
        else
          (case addrDst dt dv of
             None \<Rightarrow> Inl (Recovered ''reflect.Value.Type'')
           | Some (pt, pv) \<Rightarrow>
               (case textUnmarshalers E pt of
                  Some um \<Rightarrow>
                    (case src of
                       None \<Rightarrow> Inl (Recovered ''reflect.Value.Type'')
                     | Some (st, sv) \<Rightarrow>
                         if stringers E st \<or> srcK = KString
                         then Inr (put_indirect dt (fst (um (rv_String st sv) pv)))
                         else Inl (CannotUnmarshal srcK dstK))
                | None \<Rightarrow>
                    if isNumericKind dstK then
                      (if isNumericKind srcK then
                         (case src of None \<Rightarrow> Inl (Recovered ''reflect.Value.Convert'')
                          | Some (st, sv) \<Rightarrow> Convert (arch E) sv dstK)
                       else
                         (case src of
                            None \<Rightarrow> Inl (Recovered ''reflect.Value.Type'')
                          | Some (st, sv) \<Rightarrow>
                              if stringers E st \<or> srcK = KString then
                                (case parse_into E (rv_String st sv) dstK of
                                   Some v \<Rightarrow> Inr v
                                 | None \<Rightarrow> Inl (CannotConvertString (rv_String st sv) dstK))
                              else Inl (CannotConvert srcK dstK)))
                    else Inl (WrongKind srcK dstK))))"

definition rv_size :: "rvalue \<Rightarrow> nat" where
  "rv_size v = (case v of None \<Rightarrow> 0 | Some (t, x) \<Rightarrow> size x)"

function
    weakCopyValue :: "env \<Rightarrow> rvalue \<Rightarrow> bool \<Rightarrow> gotype \<Rightarrow> val \<Rightarrow> err + val"
and copy_slice :: "env \<Rightarrow> gotype \<Rightarrow> gotype \<Rightarrow> val list \<Rightarrow> err + val list"
and copy_map :: "env \<Rightarrow> gotype \<Rightarrow> gotype \<Rightarrow> (val \<times> val) list \<Rightarrow> (val \<times> val) list
                  \<Rightarrow> err + (val \<times> val) list"
where
  "weakCopyValue E src canSet dt dv =
     (case copy_plan (unbox src) canSet dt of
        PlanMap st kvs \<Rightarrow>
          (case copy_map E st dt kvs [] of
             Inl e \<Rightarrow> Inl e
           | Inr m \<Rightarrow> Inr (VMap (Some m)))
      | PlanSlice st xs \<Rightarrow>
          (case copy_slice E (elem_type st) (elem_type dt) xs of
             Inl e \<Rightarrow> Inl e
           | Inr ys \<Rightarrow> Inr (VSlice (Some ys)))
      | PlanDirect \<Rightarrow> copy_direct E (unbox src) canSet dt dv)"
| "copy_slice E se de [] = Inr []"
| "copy_slice E se de (x # xs) =
     (case weakCopyValue E (Some (se, x)) True de (zero de) of
        Inl e \<Rightarrow> Inl (FailedToCopySliceValue e)
      | Inr v \<Rightarrow> (case copy_slice E se de xs of Inl e \<Rightarrow> Inl e | Inr vs \<Rightarrow> Inr (v # vs)))"
| "copy_map E st dt [] acc = Inr acc"
| "copy_map E st dt (kv # kvs) acc =
     (case weakCopyValue E (Some (elem_type st, snd kv)) True (elem_type dt) (zero (elem_type dt)) of
        Inl e \<Rightarrow> Inl (FailedToCopyMapValue e)
      | Inr v \<Rightarrow>
          if assignable (key_type st) (key_type dt)
          then copy_map E st dt kvs (alist_set (fst kv) v acc)
          else Inl (Recovered ''reflect.Value.SetMapIndex''))"
  by pat_completeness auto

termination
  apply (relation "measure (\<lambda>a. case a of
            Inl (E, src, c, dt, dv) \<Rightarrow> 2 * rv_size src + 1
          | Inr (Inl (E, se, de, xs)) \<Rightarrow> 2 * size_list size xs
          | Inr (Inr (E, st, dt, kvs, acc)) \<Rightarrow> 2 * size_list (size_prod size size) kvs)")
      apply simp
     apply (auto simp: copy_plan_def unbox_def rv_Elem_def rv_Kind_def rv_size_def
                 split: option.splits val.splits if_splits)
  done

subsection \<open>The inputs of the numeric coercion property\<close>

text \<open>
  The twelve numeric kinds that the test \<open>TestOverrider_Override\<close> exercises (signed and
  unsigned integers of every width, both float widths), the value 42 in each of them, and
  the thirteen sources: 42 in each numeric kind and the string \<open>"42"\<close>.
\<close>

definition numeric_kinds :: "kind list" where
  "numeric_kinds = [KInt, KInt8, KInt16, KInt32, KInt64,
                    KUint, KUint8, KUint16, KUint32, KUint64, KFloat32, KFloat64]"

definition num42 :: "kind \<Rightarrow> val" where
  "num42 k = (if isIntKind k then VInt 42 else if isUintKind k then VUint 42 else VFloat (Finite 42))"

definition sources42 :: "rvalue list" where
  "sources42 = map (\<lambda>k. Some (predeclared k, num42 k)) numeric_kinds
               @ [Some (predeclared KString, VString ''42'')]"

text \<open>
  A platform on which a float out of range converts to the integer with only the top
  bit set, as on \<open>amd64\<close>.
\<close>

definition top_bit :: platform where
  "top_bit = \<lparr> overflow_int64 = (\<lambda>f. - (2 ^ 63)), overflow_uint64 = (\<lambda>f. 2 ^ 63) \<rparr>"

text \<open>
  An environment without user-defined methods, whose \<open>ParseFloat\<close> knows the one string
  that the examples parse.
\<close>

definition plain_env :: env where
  "plain_env = \<lparr> textUnmarshalers = (\<lambda>t. None), stringers = (\<lambda>t. False),
                  ParseFloat = (\<lambda>s. if s = ''42'' then Some (Finite 42) else None),
                  arch = top_bit \<rparr>"

text \<open>
  An environment with one user-defined type, \<open>type Duration int64\<close>, whose pointer
  receiver method \<open>UnmarshalText\<close> rejects every text and leaves the receiver as it was.
\<close>

definition reject_all :: "string \<Rightarrow> val \<Rightarrow> val \<times> string option" where
  "reject_all text v = (v, Some ''invalid duration'')"

definition duration_env :: env where
  "duration_env = \<lparr> textUnmarshalers =
                       (\<lambda>t. if t = TScalar ''Duration'' KInt64 then Some reject_all else None),
                     stringers = (\<lambda>t. False),
                     ParseFloat = (\<lambda>s. None),
                     arch = top_bit \<rparr>"

section \<open>Struct tags and names\<close>

definition structTagKey :: string where
  "structTagKey = ''override''"

definition redactKeyword :: string where
  "redactKeyword = ''redact''"

definition elementKeyword :: string where
  "elementKeyword = ''element-key=''"

text \<open>\<open>strings.Split(s, sep)\<close> for a one-character separator: never the empty list.\<close>

fun Split :: "char \<Rightarrow> string \<Rightarrow> string list" where
  "Split c [] = [[]]"
| "Split c (x # xs) =
     (if x = c then [] # Split c xs
      else case Split c xs of [] \<Rightarrow> [[x]] | p # ps \<Rightarrow> (x # p) # ps)"

definition HasPrefix :: "string \<Rightarrow> string \<Rightarrow> bool" where
  "HasPrefix s p = (take (length p) s = p)"

definition TrimPrefix :: "string \<Rightarrow> string \<Rightarrow> string" where
  "TrimPrefix s p = (if HasPrefix s p then drop (length p) s else s)"

type_synonym optionNameFunc = "string \<Rightarrow> tag \<Rightarrow> string"

text \<open>
  \<open>tagFieldName\<close>: the two versions of the file differ only in a length test that
  \<open>strings.Split\<close> makes redundant.
\<close>

definition tagFieldName_old :: "string \<Rightarrow> optionNameFunc" where
  "tagFieldName_old tg n t =
     (let parts = Split CHR '','' (Tag_Get t tg);
          name = (if length parts > 0 then parts ! 0 else [])
      in if name = [] then n else name)"

definition tagFieldName :: "string \<Rightarrow> optionNameFunc" where
  "tagFieldName tg n t =
     (let parts = Split CHR '','' (Tag_Get t tg);
          name = hd parts
      in if name = [] then n else name)"

definition TomlFieldName :: optionNameFunc where
  "TomlFieldName = tagFieldName ''toml''"

definition JSONFieldName :: optionNameFunc where
  "JSONFieldName = tagFieldName ''json''"

definition OverrideFieldName :: optionNameFunc where
  "OverrideFieldName = tagFieldName structTagKey"

definition TomlFieldName_old :: optionNameFunc where
  "TomlFieldName_old = tagFieldName_old ''toml''"

definition OverrideFieldName_old :: optionNameFunc where
  "OverrideFieldName_old = tagFieldName_old structTagKey"

text \<open>
  \<open>getSectionName\<close> of the older file (\<open>part_001\<close>): the test \<open>len(parts) > 0\<close> always
  succeeds, so the second component is always \<open>True\<close>.
\<close>

definition getSectionName_old :: "string \<Rightarrow> tag \<Rightarrow> string \<times> bool" where
  "getSectionName_old n t =
     (let parts = Split CHR '','' (Tag_Get t structTagKey)
      in if length parts > 0 then (parts ! 0, True) else (n, False))"

text \<open>\<open>getSectionName\<close> of the newer file tests the name itself.\<close>

definition getSectionName :: "string \<Rightarrow> tag \<Rightarrow> string \<times> bool" where
  "getSectionName n t =
     (let parts = Split CHR '','' (Tag_Get t structTagKey)
      in if hd parts \<noteq> [] then (hd parts, True) else (n, False))"

fun first_element_key :: "string list \<Rightarrow> string" where
  "first_element_key [] = []"
| "first_element_key (p # ps) =
     (if HasPrefix p elementKeyword then TrimPrefix p elementKeyword else first_element_key ps)"

definition getElementKey :: "tag \<Rightarrow> string" where
  "getElementKey t =
     (let parts = Split CHR '','' (Tag_Get t structTagKey)
      in if length parts > 1 then first_element_key (tl parts) else [])"

definition isRedacted :: "tag \<Rightarrow> bool" where
  "isRedacted t =
     (let parts = Split CHR '','' (Tag_Get t structTagKey)
      in if length parts > 1 then redactKeyword \<in> set (tl parts) else False)"

section \<open>The configuration object\<close>

text \<open>
  The engine expects a configuration object with two levels of nested structs. The model
  has exactly this shape. A top-level field holds a struct, a pointer to a struct (maybe
  nil), a slice of structs or of pointers to structs (the slice or a pointer in it maybe
  nil), or a plain value of a scalar kind. The fields of a section struct (the options)
  hold arbitrary typed values. All fields are exported: \<open>copystructure\<close> skips unexported
  fields and reflection cannot set them, so they are outside the model, and \<open>CanSet\<close> is
  addressability.
\<close>

record field =
  f_name :: string
  f_tag :: tag
  f_type :: gotype
  f_val :: val

record gostruct =
  st_type :: string
  st_fields :: "field list"

datatype secval =
    SecStruct gostruct
  | SecPtr "gostruct option"
  | SecSlice bool gostruct "gostruct option list option"
  | SecScalar gotype val

text \<open>
  In \<open>SecSlice p z xs\<close>, \<open>p\<close> tells whether the elements are pointers, \<open>z\<close> is the zero
  value of the element struct type, and \<open>xs\<close> is \<open>None\<close> for the nil slice; an element
  is \<open>None\<close> for a nil pointer.
\<close>

record secfield =
  s_name :: string
  s_tag :: tag
  s_val :: secval

text \<open>
  \<open>c_addr\<close> tells whether the object was handed over as a pointer to the struct, so
  that its fields are addressable; \<open>reflectwalk\<close> follows the pointer.
\<close>

record config =
  c_addr :: bool
  c_sections :: "secfield list"

section \<open>Redaction\<close>

fun isZero :: "bool \<Rightarrow> gotype \<Rightarrow> val \<Rightarrow> bool"
and isZero_elems :: "bool \<Rightarrow> gotype \<Rightarrow> val list \<Rightarrow> bool"
and isZero_fields :: "bool \<Rightarrow> (string \<times> tag \<times> gotype) list \<Rightarrow> val list \<Rightarrow> bool" where
  "isZero canSet (TScalar n k) v = (v = zero (TScalar n k))"
| "isZero canSet (TSlice n t) v = (v = VSlice None)"
| "isZero canSet (TMap n k t) v = (v = VMap None)"
| "isZero canSet (TArray n l t) v =
     (case v of VArray xs \<Rightarrow> isZero_elems canSet t xs | _ \<Rightarrow> False)"
| "isZero canSet (TStruct n fds) v =
     (case v of VStruct xs \<Rightarrow> isZero_fields canSet fds xs | _ \<Rightarrow> False)"
| "isZero canSet (TPtr t) v = (v = VPtr None)"
| "isZero canSet (TInterface n) v = (v = VIface None)"
| "isZero_elems canSet t [] = True"
| "isZero_elems canSet t (x # xs) = (if isZero canSet t x then isZero_elems canSet t xs else False)"
| "isZero_fields canSet [] xs = True"
| "isZero_fields canSet (fd # fds) [] = True"
| "isZero_fields canSet (fd # fds) (x # xs) =
     (if canSet
      then (if isZero canSet (snd (snd fd)) x then isZero_fields canSet fds xs else False)
      else isZero_fields canSet fds xs)"

text \<open>
  The structural notion of zero that the documentation describes: nil for the reference
  kinds, every element zero for an array, every field zero for a struct, equality with
  the zero value of the type otherwise.
\<close>

fun structurally_zero :: "gotype \<Rightarrow> val \<Rightarrow> bool"
and structurally_zero_elems :: "gotype \<Rightarrow> val list \<Rightarrow> bool"
and structurally_zero_fields :: "(string \<times> tag \<times> gotype) list \<Rightarrow> val list \<Rightarrow> bool" where
  "structurally_zero (TScalar n k) v = (v = zero (TScalar n k))"
| "structurally_zero (TSlice n t) v = (v = VSlice None)"
| "structurally_zero (TMap n k t) v = (v = VMap None)"
| "structurally_zero (TArray n l t) v =
     (case v of VArray xs \<Rightarrow> structurally_zero_elems t xs | _ \<Rightarrow> False)"
| "structurally_zero (TStruct n fds) v =
     (case v of VStruct xs \<Rightarrow> structurally_zero_fields fds xs | _ \<Rightarrow> False)"
| "structurally_zero (TPtr t) v = (v = VPtr None)"
| "structurally_zero (TInterface n) v = (v = VIface None)"
| "structurally_zero_elems t [] = True"
| "structurally_zero_elems t (x # xs) = (structurally_zero t x \<and> structurally_zero_elems t xs)"
| "structurally_zero_fields [] xs = True"
| "structurally_zero_fields (fd # fds) [] = True"
| "structurally_zero_fields (fd # fds) (x # xs) =
     (structurally_zero (snd (snd fd)) x \<and> structurally_zero_fields fds xs)"

definition getRedactedValue :: "bool \<Rightarrow> field \<Rightarrow> gotype \<times> val" where
  "getRedactedValue canSet f =
     (if isRedacted (f_tag f)
      then (predeclared KBool, VBool (\<not> isZero canSet (f_type f) (f_val f)))
      else (f_type f, f_val f))"

type_synonym options_map = "string \<rightharpoonup> gotype \<times> val"

fun redact_fields :: "optionNameFunc \<Rightarrow> bool \<Rightarrow> options_map \<Rightarrow> field list \<Rightarrow> options_map" where
  "redact_fields onf canSet m [] = m"
| "redact_fields onf canSet m (f # fs) =
     redact_fields onf canSet (m(onf (f_name f) (f_tag f) \<mapsto> getRedactedValue canSet f)) fs"

fun redact_elems :: "optionNameFunc \<Rightarrow> options_map \<Rightarrow> gostruct option list \<Rightarrow> options_map" where
  "redact_elems onf m [] = m"
| "redact_elems onf m (e # es) =
     redact_elems onf
       (case e of None \<Rightarrow> m | Some s \<Rightarrow> redact_fields onf True m (st_fields s)) es"

text \<open>
  \<open>Redacted\<close> walks the value held by a section or an element. A struct held by value
  is not addressable; a struct behind a pointer and the elements of a slice are.
\<close>

definition Redacted :: "optionNameFunc \<Rightarrow> secval option \<Rightarrow> options_map" where
  "Redacted onf v =
     (case v of
        None \<Rightarrow> Map.empty
      | Some (SecStruct s) \<Rightarrow> redact_fields onf False Map.empty (st_fields s)
      | Some (SecPtr None) \<Rightarrow> Map.empty
      | Some (SecPtr (Some s)) \<Rightarrow> redact_fields onf True Map.empty (st_fields s)
      | Some (SecSlice p z None) \<Rightarrow> Map.empty
      | Some (SecSlice p z (Some es)) \<Rightarrow> redact_elems onf Map.empty es
      | Some (SecScalar t x) \<Rightarrow> Map.empty)"

section \<open>The Overrider of the older file (\<open>part_001\<close>)\<close>

text \<open>
  A panic is not an error value: it unwinds through \<open>errors.Wrap\<close>. In the model it is
  the error \<open>Panic\<close>, and wrapping leaves it as it is.
\<close>

definition wrap :: "(err \<Rightarrow> err) \<Rightarrow> err \<Rightarrow> err" where
  "wrap f e = (case e of Panic s \<Rightarrow> Panic s | _ \<Rightarrow> f e)"

type_synonym overrides = "(string \<times> rvalue) list"

record walker_old =
  wo_section :: string
  wo_set :: overrides
  wo_used :: "string list"
  wo_sectionValue :: "nat option"
  wo_currentSectionName :: string

definition newOverrideWalker_old :: "string \<Rightarrow> overrides \<Rightarrow> walker_old" where
  "newOverrideWalker_old sec st =
     \<lparr> wo_section = sec, wo_set = st, wo_used = [], wo_sectionValue = None,
       wo_currentSectionName = [] \<rparr>"

definition unused_old :: "walker_old \<Rightarrow> string list" where
  "unused_old w = filter (\<lambda>name. name \<notin> set (wo_used w)) (map fst (wo_set w))"

text \<open>\<open>StructField\<close> at depth 1, for each field of a struct in turn.\<close>

fun option_fields_old ::
  "env \<Rightarrow> optionNameFunc \<Rightarrow> bool \<Rightarrow> walker_old \<Rightarrow> field list \<Rightarrow> err + field list \<times> walker_old"
where
  "option_fields_old E onf canSet w [] = Inr ([], w)"
| "option_fields_old E onf canSet w (f # fs) =
     (if wo_currentSectionName w \<noteq> wo_section w then
        (case option_fields_old E onf canSet w fs of
           Inl e \<Rightarrow> Inl e
         | Inr (fs', w') \<Rightarrow> Inr (f # fs', w'))
      else
        (case map_of (wo_set w) (onf (f_name f) (f_tag f)) of
           None \<Rightarrow>
             (case option_fields_old E onf canSet w fs of
                Inl e \<Rightarrow> Inl e
              | Inr (fs', w') \<Rightarrow> Inr (f # fs', w'))
         | Some setValue \<Rightarrow>
             (case weakCopyValue_old E setValue canSet (f_type f) (f_val f) of
                Inl e \<Rightarrow> Inl (wrap (CannotSetOption (onf (f_name f) (f_tag f))) e)
              | Inr v \<Rightarrow>
                  (case option_fields_old E onf canSet
                          (w\<lparr> wo_used := onf (f_name f) (f_tag f) # wo_used w \<rparr>) fs of
                     Inl e \<Rightarrow> Inl e
                   | Inr (fs', w') \<Rightarrow> Inr (f\<lparr> f_val := v \<rparr> # fs', w')))))"

definition option_struct_old ::
  "env \<Rightarrow> optionNameFunc \<Rightarrow> bool \<Rightarrow> walker_old \<Rightarrow> gostruct \<Rightarrow> err + gostruct \<times> walker_old"
where
  "option_struct_old E onf canSet w s =
     (case option_fields_old E onf canSet w (st_fields s) of
        Inl e \<Rightarrow> Inl e
      | Inr (fs', w') \<Rightarrow> Inr (s\<lparr> st_fields := fs' \<rparr>, w'))"

text \<open>
  The older walker implements no slice callbacks, so \<open>reflectwalk\<close> presents the fields
  of every element of a slice at depth 1 as well.
\<close>

fun option_elems_old ::
  "env \<Rightarrow> optionNameFunc \<Rightarrow> walker_old \<Rightarrow> gostruct option list
   \<Rightarrow> err + gostruct option list \<times> walker_old"
where
  "option_elems_old E onf w [] = Inr ([], w)"
| "option_elems_old E onf w (None # es) =
     (case option_elems_old E onf w es of
        Inl e \<Rightarrow> Inl e
      | Inr (es', w') \<Rightarrow> Inr (None # es', w'))"
| "option_elems_old E onf w (Some s # es) =
     (case option_struct_old E onf True w s of
        Inl e \<Rightarrow> Inl e
      | Inr (s', w1) \<Rightarrow>
          (case option_elems_old E onf w1 es of
             Inl e \<Rightarrow> Inl e
           | Inr (es', w') \<Rightarrow> Inr (Some s' # es', w')))"

text \<open>\<open>StructField\<close> at depth 0 for the top-level field with index \<open>i\<close>.\<close>

definition section_field_old :: "walker_old \<Rightarrow> nat \<Rightarrow> secfield \<Rightarrow> walker_old" where
  "section_field_old w i sf =
     (case getSectionName_old (s_name sf) (s_tag sf) of
        (name, ok) \<Rightarrow>
          if ok then
            (if wo_section w = name
             then w\<lparr> wo_currentSectionName := name, wo_sectionValue := Some i \<rparr>
             else w\<lparr> wo_currentSectionName := name \<rparr>)
          else w)"

definition walk_value_old ::
  "env \<Rightarrow> optionNameFunc \<Rightarrow> bool \<Rightarrow> walker_old \<Rightarrow> secval \<Rightarrow> err + secval \<times> walker_old"
where
  "walk_value_old E onf addr w v =
     (case v of
        SecStruct s \<Rightarrow>
          (case option_struct_old E onf addr w s of
             Inl e \<Rightarrow> Inl e
           | Inr (s', w') \<Rightarrow> Inr (SecStruct s', w'))
      | SecPtr None \<Rightarrow> Inr (v, w)
      | SecPtr (Some s) \<Rightarrow>
          (case option_struct_old E onf True w s of
             Inl e \<Rightarrow> Inl e
           | Inr (s', w') \<Rightarrow> Inr (SecPtr (Some s'), w'))
      | SecSlice p z None \<Rightarrow> Inr (v, w)
      | SecSlice p z (Some es) \<Rightarrow>
          (case option_elems_old E onf w es of
             Inl e \<Rightarrow> Inl e
           | Inr (es', w') \<Rightarrow> Inr (SecSlice p z (Some es'), w'))
      | SecScalar t x \<Rightarrow> Inr (v, w))"

fun walk_sections_old ::
  "env \<Rightarrow> optionNameFunc \<Rightarrow> bool \<Rightarrow> walker_old \<Rightarrow> nat \<Rightarrow> secfield list
   \<Rightarrow> err + secfield list \<times> walker_old"
where
  "walk_sections_old E onf addr w i [] = Inr ([], w)"
| "walk_sections_old E onf addr w i (sf # sfs) =
     (case walk_value_old E onf addr (section_field_old w i sf) (s_val sf) of
        Inl e \<Rightarrow> Inl e
      | Inr (v', w1) \<Rightarrow>
          (case walk_sections_old E onf addr w1 (Suc i) sfs of
             Inl e \<Rightarrow> Inl e
           | Inr (sfs', w') \<Rightarrow> Inr (sf\<lparr> s_val := v' \<rparr> # sfs', w')))"

text \<open>
  The Overrider holds the original object and the option name function. \<open>Override\<close>
  works on a deep copy; values of the model are trees, so the copy of a value is the
  value, and the Overrider is never written.
\<close>

record overrider =
  original :: config
  OptionNameFunc :: optionNameFunc

definition New_old :: "config \<Rightarrow> overrider" where
  "New_old c = \<lparr> original = c, OptionNameFunc = OverrideFieldName_old \<rparr>"

definition Override_old :: "env \<Rightarrow> overrider \<Rightarrow> string \<Rightarrow> overrides \<Rightarrow> err + secval" where
  "Override_old E c sec st =
     (if sec = [] then Inl SectionEmpty
      else
        (case walk_sections_old E (OptionNameFunc c) (c_addr (original c))
                (newOverrideWalker_old sec st) 0 (c_sections (original c)) of
           Inl e \<Rightarrow> Inl (wrap (FailedToApply sec) e)
         | Inr (sfs', w) \<Rightarrow>
             (if unused_old w \<noteq> [] then Inl (UnknownOptions (set (unused_old w)) sec)
              else
                (case wo_sectionValue w of
                   None \<Rightarrow> Inl (UnknownSection sec)
                 | Some i \<Rightarrow> Inr (s_val (sfs' ! i))))))"

text \<open>\<open>Sections\<close> of the older file: the section walker records every top-level field
  for which \<open>getSectionName\<close> answers \<open>ok\<close>.\<close>

fun sections_walk_old :: "(string \<rightharpoonup> secval) \<Rightarrow> secfield list \<Rightarrow> (string \<rightharpoonup> secval)" where
  "sections_walk_old m [] = m"
| "sections_walk_old m (sf # sfs) =
     (case getSectionName_old (s_name sf) (s_tag sf) of
        (name, ok) \<Rightarrow> sections_walk_old (if ok then m(name \<mapsto> s_val sf) else m) sfs)"

definition Sections_old :: "overrider \<Rightarrow> (string \<rightharpoonup> secval)" where
  "Sections_old c = sections_walk_old Map.empty (c_sections (original c))"

section \<open>The config service (\<open>services/config/service.go\<close>)\<close>

text \<open>
  Modelled from the spec: the override store. The spec describes it as a durable mapping
  from section id to override record with \<open>Get\<close>, \<open>Set\<close>, \<open>Delete\<close> and \<open>List\<close>, where
  \<open>Get\<close> on an absent id fails with the distinguished error \<open>no override exists\<close>; the
  file that implements it is not among the sources. The model is the mapping itself.
  The key-value interface below the store may fail; \<open>store_faults\<close> tells, for a call of
  \<open>Get\<close>, \<open>Set\<close> or \<open>List\<close>, the error of that interface (\<open>None\<close> when the call goes
  through). A call that fails leaves the mapping as it is.
\<close>

type_synonym store = "string \<rightharpoonup> overrides"

record store_faults =
  Get_fault :: "string \<Rightarrow> string option"
  Set_fault :: "string \<Rightarrow> overrides \<Rightarrow> string option"
  List_fault :: "string option"

definition no_faults :: store_faults where
  "no_faults = \<lparr> Get_fault = (\<lambda>ident. None), Set_fault = (\<lambda>ident m. None), List_fault = None \<rparr>"

record updateAction =
  ua_Set :: overrides
  ua_Delete :: "string list"

definition delete_key :: "string \<Rightarrow> overrides \<Rightarrow> overrides" where
  "delete_key k m = filter (\<lambda>p. fst p \<noteq> k) m"

text \<open>
  \<open>applyUpdateAction\<close> merges the action into the stored record and writes the record
  back before anything is resolved. Both errors of the store are wrapped with the same
  message.
\<close>

definition merge_action :: "overrides \<Rightarrow> updateAction \<Rightarrow> overrides" where
  "merge_action m ua = fold delete_key (ua_Delete ua) (fold (\<lambda>p. alist_set (fst p) (snd p)) (ua_Set ua) m)"

definition applyUpdateAction ::
  "store_faults \<Rightarrow> store \<Rightarrow> string \<Rightarrow> updateAction \<Rightarrow> err + store \<times> overrides"
where
  "applyUpdateAction F st ident ua =
     (case Get_fault F ident of
        Some msg \<Rightarrow> Inl (FailedToRetrieveOverrides ident msg)
      | None \<Rightarrow>
          (let m = merge_action (case st ident of None \<Rightarrow> [] | Some m \<Rightarrow> m) ua
           in case Set_fault F ident m of
                Some msg \<Rightarrow> Inl (FailedToRetrieveOverrides ident msg)
              | None \<Rightarrow> Inr (st(ident \<mapsto> m), m)))"

datatype http_error =
    MustProvideSectionName
  | FailedToDecodeJSON
  | FailedToUpdateConfig err

datatype response = NoContent | BadRequest http_error | Aborted string

record service_state =
  ss_overrides :: store
  ss_updates :: "(string \<times> secval) list"

text \<open>
  \<open>handleUpdateSection\<close>: the section is the last element of the request path, the body
  is the decoded update action (\<open>None\<close> when the JSON does not decode). A panic of the
  Overrider ends the handler without a response of its own.
\<close>

definition failure_response :: "err \<Rightarrow> response" where
  "failure_response e =
     (case e of Panic msg \<Rightarrow> Aborted msg | _ \<Rightarrow> BadRequest (FailedToUpdateConfig e))"

definition handleUpdateSection ::
  "env \<Rightarrow> store_faults \<Rightarrow> overrider \<Rightarrow> service_state \<Rightarrow> string \<Rightarrow> updateAction option
   \<Rightarrow> response \<times> service_state"
where
  "handleUpdateSection E F c s sec body =
     (if sec = [] then (BadRequest MustProvideSectionName, s)
      else
        (case body of
           None \<Rightarrow> (BadRequest FailedToDecodeJSON, s)
         | Some ua \<Rightarrow>
             (case applyUpdateAction F (ss_overrides s) sec ua of
                Inl e \<Rightarrow> (BadRequest (FailedToUpdateConfig e), s)
              | Inr (st', m) \<Rightarrow>
                  (case Override_old E c sec m of
                     Inl e \<Rightarrow> (failure_response e, s\<lparr> ss_overrides := st' \<rparr>)
                   | Inr newConfig \<Rightarrow>
                       (NoContent,
                        s\<lparr> ss_overrides := st', ss_updates := ss_updates s @ [(sec, newConfig)] \<rparr>)))))"

text \<open>
  \<open>getConfig\<close>: every section of the original object, overridden when the store has a
  record under its name, then redacted. The sections are visited in the order of the
  fields (Go leaves the order of a map iteration open).
\<close>

definition section_names_old :: "overrider \<Rightarrow> string list" where
  "section_names_old c =
     remdups (map (\<lambda>sf. fst (getSectionName_old (s_name sf) (s_tag sf))) (c_sections (original c)))"

fun resolve_sections ::
  "env \<Rightarrow> overrider \<Rightarrow> store \<Rightarrow> string list \<Rightarrow> err + (string \<rightharpoonup> options_map)"
where
  "resolve_sections E c st [] = Inr Map.empty"
| "resolve_sections E c st (name # names) =
     (case (case st name of
              None \<Rightarrow> Inr (Sections_old c name)
            | Some m \<Rightarrow> map_sum (\<lambda>e. e) Some (Override_old E c name m)) of
        Inl e \<Rightarrow> Inl (wrap (FailedToOverride name []) e)
      | Inr v \<Rightarrow>
          (case resolve_sections E c st names of
             Inl e \<Rightarrow> Inl e
           | Inr cfg \<Rightarrow> Inr (cfg(name \<mapsto> Redacted (OptionNameFunc c) v))))"

definition getConfig ::
  "env \<Rightarrow> store_faults \<Rightarrow> overrider \<Rightarrow> service_state \<Rightarrow> err + (string \<rightharpoonup> options_map)"
where
  "getConfig E F c s =
     (case List_fault F of
        Some msg \<Rightarrow> Inl (FailedToRetrieveConfigOverrides msg)
      | None \<Rightarrow> resolve_sections E c (ss_overrides s) (section_names_old c))"

definition NewService :: "config \<Rightarrow> overrider" where
  "NewService c = \<lparr> original = c, OptionNameFunc = TomlFieldName_old \<rparr>"

subsection \<open>What a section resolves to\<close>

text \<open>
  The fields that \<open>reflectwalk\<close> presents at depth 1 below a top-level field: the fields
  of the struct, or the fields of all elements of the slice.
\<close>

definition elem_fields :: "gostruct option list \<Rightarrow> field list" where
  "elem_fields es = concat (map (\<lambda>e. case e of None \<Rightarrow> [] | Some s \<Rightarrow> st_fields s) es)"

definition fields_of :: "secval \<Rightarrow> field list" where
  "fields_of v =
     (case v of
        SecStruct s \<Rightarrow> st_fields s
      | SecPtr (Some s) \<Rightarrow> st_fields s
      | SecSlice p z (Some es) \<Rightarrow> elem_fields es
      | _ \<Rightarrow> [])"

definition option_names :: "optionNameFunc \<Rightarrow> field list \<Rightarrow> string set" where
  "option_names onf fs = (\<lambda>f. onf (f_name f) (f_tag f)) ` set fs"

text \<open>
  The name under which the older file knows a top-level field, and the option names
  declared on the section \<open>sec\<close>.
\<close>

definition sec_name_old :: "secfield \<Rightarrow> string" where
  "sec_name_old sf = fst (getSectionName_old (s_name sf) (s_tag sf))"

definition section_options_old :: "optionNameFunc \<Rightarrow> string \<Rightarrow> secfield list \<Rightarrow> string set" where
  "section_options_old onf sec sfs =
     (\<Union>sf \<in> {sf \<in> set sfs. sec_name_old sf = sec}. option_names onf (fields_of (s_val sf)))"


text \<open>
  The section value that \<open>Override\<close> of the older file returns for \<open>sec\<close> stems from the
  last top-level field of that name.
\<close>

definition find_section_old :: "string \<Rightarrow> secfield list \<Rightarrow> secval option" where
  "find_section_old sec sfs =
     (case filter (\<lambda>sf. sec_name_old sf = sec) sfs of
        [] \<Rightarrow> None
      | ms \<Rightarrow> Some (s_val (last ms)))"

text \<open>
  A field under a set of overrides: untouched when its option name has no override,
  else holding the coerced value.
\<close>

definition resolve_field_old ::
  "env \<Rightarrow> optionNameFunc \<Rightarrow> bool \<Rightarrow> overrides \<Rightarrow> field \<Rightarrow> field"
where
  "resolve_field_old E onf canSet m f =
     (case map_of m (onf (f_name f) (f_tag f)) of
        None \<Rightarrow> f
      | Some setValue \<Rightarrow>
          (case weakCopyValue_old E setValue canSet (f_type f) (f_val f) of
             Inl e \<Rightarrow> f
           | Inr v \<Rightarrow> f\<lparr> f_val := v \<rparr>))"

definition resolve_struct_old ::
  "env \<Rightarrow> optionNameFunc \<Rightarrow> bool \<Rightarrow> overrides \<Rightarrow> gostruct \<Rightarrow> gostruct"
where
  "resolve_struct_old E onf canSet m s =
     s\<lparr> st_fields := map (resolve_field_old E onf canSet m) (st_fields s) \<rparr>"

definition resolve_secval_old ::
  "env \<Rightarrow> optionNameFunc \<Rightarrow> bool \<Rightarrow> overrides \<Rightarrow> secval \<Rightarrow> secval"
where
  "resolve_secval_old E onf addr m v =
     (case v of
        SecStruct s \<Rightarrow> SecStruct (resolve_struct_old E onf addr m s)
      | SecPtr (Some s) \<Rightarrow> SecPtr (Some (resolve_struct_old E onf True m s))
      | SecSlice p z (Some es) \<Rightarrow>
          SecSlice p z (Some (map (map_option (resolve_struct_old E onf True m)) es))
      | _ \<Rightarrow> v)"

text \<open>The two requests of the round trip, and the state of the tests before any request.\<close>

definition set_action :: "string \<Rightarrow> rvalue \<Rightarrow> updateAction" where
  "set_action k x = \<lparr> ua_Set = [(k, x)], ua_Delete = [] \<rparr>"

definition delete_action :: "string \<Rightarrow> updateAction" where
  "delete_action k = \<lparr> ua_Set = [], ua_Delete = [k] \<rparr>"

definition stored :: "service_state \<Rightarrow> string \<Rightarrow> overrides" where
  "stored s sec = (case ss_overrides s sec of None \<Rightarrow> [] | Some m \<Rightarrow> m)"

definition fresh_state :: service_state where
  "fresh_state = \<lparr> ss_overrides = Map.empty, ss_updates = [] \<rparr>"

text \<open>The round trip: a request that sets \<open>k\<close>, then a request that deletes \<open>k\<close>.\<close>

definition round_trip ::
  "env \<Rightarrow> store_faults \<Rightarrow> overrider \<Rightarrow> service_state \<Rightarrow> string \<Rightarrow> string \<Rightarrow> rvalue
   \<Rightarrow> response \<times> service_state"
where
  "round_trip E F c s sec k x =
     handleUpdateSection E F c
       (snd (handleUpdateSection E F c s sec (Some (set_action k x)))) sec (Some (delete_action k))"

text \<open>Whether the fields below a top-level field are settable.\<close>

definition fields_settable :: "bool \<Rightarrow> secval \<Rightarrow> bool" where
  "fields_settable addr v = (case v of SecStruct s \<Rightarrow> addr | _ \<Rightarrow> True)"

section \<open>The Overrider of the newer file\<close>

record override =
  o_Section :: string
  o_Element :: string
  o_Options :: overrides
  o_Delete :: bool
  o_Create :: bool

text \<open>\<open>Validate\<close>: the first rule that is broken, in the order of the source.\<close>

definition Validate :: "override \<Rightarrow> err option" where
  "Validate req =
     (if o_Section req = [] then Some SectionEmpty
      else if o_Delete req \<and> o_Element req = [] then Some ElementEmptyOnDelete
      else if o_Create req \<and> o_Element req \<noteq> [] then Some ElementNotEmptyOnCreate
      else if o_Delete req \<and> length (o_Options req) > 0 then Some DeleteWithOptions
      else if o_Delete req \<and> o_Create req then Some CreateAndDelete
      else None)"

text \<open>
  The methods that user types may have: \<open>Validate\<close> on the value an element holds
  (\<open>None\<close> when its type is no \<open>Validater\<close>, otherwise the error the call returns), and
  \<open>SetDefaults\<close> on a new element (\<open>None\<close> when the type is no \<open>Defaulter\<close>).
\<close>

record hooks =
  validaters :: "secval \<Rightarrow> string option option"
  defaulters :: "gostruct \<Rightarrow> gostruct option"

text \<open>
  A \<open>reflect.Value\<close> that the walker keeps is a place in the object being walked: a
  top-level field, or an element of the slice in a top-level field.
\<close>

datatype loc = LocSection nat | LocElem nat nat

record walker =
  w_o :: override
  w_used :: "string list"
  w_elementValue :: "loc option"
  w_currentSectionName :: string
  w_currentElementName :: string
  w_elementKey :: string

definition newOverrideWalker :: "override \<Rightarrow> walker" where
  "newOverrideWalker req =
     \<lparr> w_o = req, w_used = [], w_elementValue = None, w_currentSectionName = [],
       w_currentElementName = [], w_elementKey = [] \<rparr>"

definition unused :: "walker \<Rightarrow> string list" where
  "unused w = filter (\<lambda>name. name \<notin> set (w_used w)) (map fst (o_Options (w_o w)))"

record element =
  e_value :: "secval option"
  e_element :: string

text \<open>
  \<open>findFieldByElementKey\<close>: the field with that Go name, else the first field with that
  option name; when the loop finds none, the named result still holds the last field
  visited.
\<close>

fun index_where :: "('a \<Rightarrow> bool) \<Rightarrow> 'a list \<Rightarrow> nat option" where
  "index_where P [] = None"
| "index_where P (x # xs) = (if P x then Some 0 else map_option Suc (index_where P xs))"

definition findFieldByElementKey :: "optionNameFunc \<Rightarrow> string \<Rightarrow> gostruct option \<Rightarrow> nat option" where
  "findFieldByElementKey onf key v =
     (case v of
        None \<Rightarrow> None
      | Some s \<Rightarrow>
          (case index_where (\<lambda>f. f_name f = key) (st_fields s) of
             Some j \<Rightarrow> Some j
           | None \<Rightarrow>
               (case index_where (\<lambda>f. onf (f_name f) (f_tag f) = key) (st_fields s) of
                  Some j \<Rightarrow> Some j
                | None \<Rightarrow> if st_fields s = [] then None else Some (length (st_fields s) - 1))))"

text \<open>\<open>StructField\<close> at depth 1, for each field of a struct in turn.\<close>

fun option_fields ::
  "env \<Rightarrow> optionNameFunc \<Rightarrow> bool \<Rightarrow> walker \<Rightarrow> field list \<Rightarrow> err + field list \<times> walker"
where
  "option_fields E onf canSet w [] = Inr ([], w)"
| "option_fields E onf canSet w (f # fs) =
     (if w_currentSectionName w \<noteq> o_Section (w_o w) \<or> w_currentElementName w \<noteq> o_Element (w_o w)
      then
        (case option_fields E onf canSet w fs of
           Inl e \<Rightarrow> Inl e
         | Inr (fs', w') \<Rightarrow> Inr (f # fs', w'))
      else
        (case map_of (o_Options (w_o w)) (onf (f_name f) (f_tag f)) of
           None \<Rightarrow>
             (case option_fields E onf canSet w fs of
                Inl e \<Rightarrow> Inl e
              | Inr (fs', w') \<Rightarrow> Inr (f # fs', w'))
         | Some setValue \<Rightarrow>
             (if \<not> o_Create (w_o w) \<and> onf (f_name f) (f_tag f) = w_elementKey w
              then Inl (CannotOverrideElementKey (onf (f_name f) (f_tag f)))
              else
                (case weakCopyValue E setValue canSet (f_type f) (f_val f) of
                   Inl e \<Rightarrow> Inl (CannotSetOption (onf (f_name f) (f_tag f)) e)
                 | Inr v \<Rightarrow>
                     (case option_fields E onf canSet
                             (w\<lparr> w_used := onf (f_name f) (f_tag f) # w_used w \<rparr>) fs of
                        Inl e \<Rightarrow> Inl e
                      | Inr (fs', w') \<Rightarrow> Inr (f\<lparr> f_val := v \<rparr> # fs', w'))))))"

definition option_struct ::
  "env \<Rightarrow> optionNameFunc \<Rightarrow> bool \<Rightarrow> walker \<Rightarrow> gostruct \<Rightarrow> err + gostruct \<times> walker"
where
  "option_struct E onf canSet w s =
     (case option_fields E onf canSet w (st_fields s) of
        Inl e \<Rightarrow> Inl e
      | Inr (fs', w') \<Rightarrow> Inr (s\<lparr> st_fields := fs' \<rparr>, w'))"

text \<open>\<open>StructField\<close> at depth 0 for the top-level field with index \<open>i\<close>.\<close>

definition section_field :: "walker \<Rightarrow> nat \<Rightarrow> secfield \<Rightarrow> walker" where
  "section_field w i sf =
     (case getSectionName (s_name sf) (s_tag sf) of
        (name, ok) \<Rightarrow>
          if ok then
            (if o_Section (w_o w) = name
             then w\<lparr> w_currentSectionName := name, w_elementValue := Some (LocSection i),
                     w_elementKey := getElementKey (s_tag sf) \<rparr>
             else w\<lparr> w_currentSectionName := name \<rparr>)
          else w\<lparr> w_currentSectionName := [] \<rparr>)"

text \<open>
  \<open>Slice\<close>, the callback for the slice in a top-level field. With \<open>Create\<close> it appends a
  new element and fills the element key in; the slice itself must be settable, which it
  is when the object is addressable.
\<close>

definition is_string_value :: "rvalue \<Rightarrow> string option" where
  "is_string_value v =
     (case v of
        Some (t, VString s) \<Rightarrow> if t = predeclared KString then Some s else None
      | _ \<Rightarrow> None)"

definition new_element :: "hooks \<Rightarrow> gostruct \<Rightarrow> gostruct" where
  "new_element H z = (case defaulters H z of None \<Rightarrow> z | Some d \<Rightarrow> d)"

definition set_element_key ::
  "env \<Rightarrow> optionNameFunc \<Rightarrow> walker \<Rightarrow> gostruct \<Rightarrow> err + gostruct \<times> walker"
where
  "set_element_key E onf w n =
     (if w_elementKey w \<noteq> [] then
        (case findFieldByElementKey onf (w_elementKey w) (Some n) of
           None \<Rightarrow> Inl (NoFieldForElementKey (w_elementKey w))
         | Some j \<Rightarrow>
             (if type_kind (f_type (st_fields n ! j)) \<noteq> KString
              then Inl (ElementKeyFieldNotString (f_type (st_fields n ! j)))
              else
                (case map_of (o_Options (w_o w)) (w_elementKey w) of
                   None \<Rightarrow> Inl (ElementKeyNotInOptions (w_elementKey w))
                 | Some setValue \<Rightarrow>
                     (case is_string_value setValue of
                        None \<Rightarrow> Inl ElementKeyNotString
                      | Some str \<Rightarrow>
                          (case weakCopyValue E setValue True (f_type (st_fields n ! j))
                                  (f_val (st_fields n ! j)) of
                             Inl e \<Rightarrow> Inl (CannotSetElementKey (w_elementKey w) e)
                           | Inr v \<Rightarrow>
                               Inr (n\<lparr> st_fields := (st_fields n)[j := (st_fields n ! j)\<lparr> f_val := v \<rparr>] \<rparr>,
                                    w\<lparr> w_o := (w_o w)\<lparr> o_Element := str \<rparr>,
                                       w_used := w_elementKey w # w_used w \<rparr>))))))
      else Inl CannotCreateWithoutElementKey)"

definition Slice ::
  "env \<Rightarrow> hooks \<Rightarrow> optionNameFunc \<Rightarrow> bool \<Rightarrow> walker \<Rightarrow> gostruct \<Rightarrow> gostruct option list option
   \<Rightarrow> err + gostruct option list option \<times> walker"
where
  "Slice E H onf addr w z xs =
     (if o_Section (w_o w) \<noteq> w_currentSectionName w then Inr (xs, w)
      else if o_Delete (w_o w) then Inr (xs, w\<lparr> w_elementValue := None \<rparr>)
      else if o_Create (w_o w) then
        (if \<not> addr then Inl (Panic ''reflect.Value.Set using unaddressable value'')
         else
           (case set_element_key E onf w (new_element H z) of
              Inl e \<Rightarrow> Inl e
            | Inr (n, w') \<Rightarrow> Inr (Some ((case xs of None \<Rightarrow> [] | Some ys \<Rightarrow> ys) @ [Some n]), w')))
      else Inr (xs, w))"

text \<open>
  \<open>SliceElem\<close> for the element with index \<open>i\<close> of the slice in the top-level field with
  index \<open>si\<close>. The boolean tells whether the element is to be spliced out of the slice.
\<close>

definition SliceElem ::
  "optionNameFunc \<Rightarrow> bool \<Rightarrow> walker \<Rightarrow> nat \<Rightarrow> nat \<Rightarrow> gostruct option \<Rightarrow> err + bool \<times> walker"
where
  "SliceElem onf addr w si i v =
     (if w_currentSectionName w = o_Section (w_o w) \<and> o_Element (w_o w) \<noteq> [] then
        (if w_elementKey w \<noteq> [] then
           (case findFieldByElementKey onf (w_elementKey w) v of
              None \<Rightarrow> Inl (NoFieldForElementKey (w_elementKey w))
            | Some j \<Rightarrow>
                (case v of
                   None \<Rightarrow> Inl (NoFieldForElementKey (w_elementKey w))
                 | Some s \<Rightarrow>
                     (if type_kind (f_type (st_fields s ! j)) \<noteq> KString
                      then Inl (ElementKeyFieldNotString (f_type (st_fields s ! j)))
                      else
                        (if o_Element (w_o w)
                            = rv_String (f_type (st_fields s ! j)) (f_val (st_fields s ! j))
                         then
                           (if o_Delete (w_o w) then
                              (if addr
                               then Inr (True,
                                      w\<lparr> w_currentElementName :=
                                           rv_String (f_type (st_fields s ! j)) (f_val (st_fields s ! j)) \<rparr>)
                               else Inl (Panic ''reflect.Value.Set using unaddressable value''))
                            else Inr (False,
                                   w\<lparr> w_currentElementName :=
                                        rv_String (f_type (st_fields s ! j)) (f_val (st_fields s ! j)),
                                      w_elementValue := Some (LocElem si i) \<rparr>))
                         else Inr (False,
                                w\<lparr> w_currentElementName :=
                                     rv_String (f_type (st_fields s ! j)) (f_val (st_fields s ! j)) \<rparr>)))))
         else Inl NoElementKeyTag)
      else Inr (False, w))"

definition remove_nth :: "nat \<Rightarrow> 'a list \<Rightarrow> 'a list" where
  "remove_nth i xs = take i xs @ drop (Suc i) xs"

text \<open>
  The loop of \<open>reflectwalk\<close> over the elements reads the length of the slice anew in each
  round, so it sees the splice. After \<open>SliceElem\<close> it walks the value in slot \<open>i\<close> of
  the backing array: the element itself, or after a splice the element that moved
  there (the spliced element, out of the slice's reach, when it was the last).
\<close>

function walk_elems ::
  "env \<Rightarrow> optionNameFunc \<Rightarrow> bool \<Rightarrow> walker \<Rightarrow> nat \<Rightarrow> nat \<Rightarrow> gostruct option list
   \<Rightarrow> err + gostruct option list \<times> walker"
where
  "walk_elems E onf addr w si i xs =
     (if length xs \<le> i then Inr (xs, w)
      else
        (case SliceElem onf addr w si i (xs ! i) of
           Inl e \<Rightarrow> Inl e
         | Inr (del, w1) \<Rightarrow>
             (case (if del \<and> i < length (remove_nth i xs) then remove_nth i xs ! i else xs ! i) of
                None \<Rightarrow> walk_elems E onf addr w1 si (Suc i) (if del then remove_nth i xs else xs)
              | Some s \<Rightarrow>
                  (case option_struct E onf True w1 s of
                     Inl e \<Rightarrow> Inl e
                   | Inr (s', w2) \<Rightarrow>
                       walk_elems E onf addr w2 si (Suc i)
                         ((if del then remove_nth i xs else xs)[i := Some s'])))))"
  by pat_completeness auto
termination
  by (relation "measure (\<lambda>(E, onf, addr, w, si, i, xs). length xs - i)")
     (auto simp: remove_nth_def)

declare walk_elems.simps [simp del]

definition walk_value ::
  "env \<Rightarrow> hooks \<Rightarrow> optionNameFunc \<Rightarrow> bool \<Rightarrow> walker \<Rightarrow> nat \<Rightarrow> secval \<Rightarrow> err + secval \<times> walker"
where
  "walk_value E H onf addr w si v =
     (case v of
        SecStruct s \<Rightarrow>
          (case option_struct E onf addr w s of
             Inl e \<Rightarrow> Inl e
           | Inr (s', w') \<Rightarrow> Inr (SecStruct s', w'))
      | SecPtr None \<Rightarrow> Inr (v, w)
      | SecPtr (Some s) \<Rightarrow>
          (case option_struct E onf True w s of
             Inl e \<Rightarrow> Inl e
           | Inr (s', w') \<Rightarrow> Inr (SecPtr (Some s'), w'))
      | SecSlice p z xs \<Rightarrow>
          (case Slice E H onf addr w z xs of
             Inl e \<Rightarrow> Inl e
           | Inr (None, w1) \<Rightarrow> Inr (SecSlice p z None, w1)
           | Inr (Some ys, w1) \<Rightarrow>
               (case walk_elems E onf addr w1 si 0 ys of
                  Inl e \<Rightarrow> Inl e
                | Inr (ys', w') \<Rightarrow> Inr (SecSlice p z (Some ys'), w')))
      | SecScalar t x \<Rightarrow> Inr (v, w))"

fun walk_sections ::
  "env \<Rightarrow> hooks \<Rightarrow> optionNameFunc \<Rightarrow> bool \<Rightarrow> walker \<Rightarrow> nat \<Rightarrow> secfield list
   \<Rightarrow> err + secfield list \<times> walker"
where
  "walk_sections E H onf addr w i [] = Inr ([], w)"
| "walk_sections E H onf addr w i (sf # sfs) =
     (case walk_value E H onf addr (section_field w i sf) i (s_val sf) of
        Inl e \<Rightarrow> Inl e
      | Inr (v', w1) \<Rightarrow>
          (case walk_sections E H onf addr w1 (Suc i) sfs of
             Inl e \<Rightarrow> Inl e
           | Inr (sfs', w') \<Rightarrow> Inr (sf\<lparr> s_val := v' \<rparr> # sfs', w')))"

text \<open>\<open>elementObject\<close> reads the place the walker kept, in the object as the walk left it.\<close>

definition read_loc :: "secfield list \<Rightarrow> loc \<Rightarrow> secval" where
  "read_loc sfs l =
     (case l of
        LocSection i \<Rightarrow> s_val (sfs ! i)
      | LocElem i j \<Rightarrow>
          (case s_val (sfs ! i) of
             SecSlice p z (Some xs) \<Rightarrow>
               (if p then SecPtr (xs ! j)
                else (case xs ! j of Some s \<Rightarrow> SecStruct s | None \<Rightarrow> SecStruct z))
           | other \<Rightarrow> other))"

definition elementObject :: "secfield list \<Rightarrow> walker \<Rightarrow> element" where
  "elementObject sfs w =
     (case w_elementValue w of
        Some l \<Rightarrow> \<lparr> e_value = Some (read_loc sfs l), e_element = o_Element (w_o w) \<rparr>
      | None \<Rightarrow> \<lparr> e_value = None, e_element = [] \<rparr>)"

text \<open>
  \<open>applyOverride\<close> returns the element and, for \<open>OverrideAll\<close>, the object as the walk
  left it.
\<close>

definition applyOverride ::
  "env \<Rightarrow> hooks \<Rightarrow> optionNameFunc \<Rightarrow> config \<Rightarrow> override \<Rightarrow> err + element \<times> config"
where
  "applyOverride E H onf object req =
     (case Validate req of
        Some e \<Rightarrow> Inl (InvalidOverride e)
      | None \<Rightarrow>
          (case walk_sections E H onf (c_addr object) (newOverrideWalker req) 0 (c_sections object) of
             Inl e \<Rightarrow> Inl (wrap (FailedToApply (o_Section req)) e)
           | Inr (sfs', w) \<Rightarrow>
               (if unused w \<noteq> [] then Inl (UnknownOptions (set (unused w)) (o_Section req))
                else if e_value (elementObject sfs' w) = None \<and> \<not> o_Delete req
                then Inl (UnknownSection (o_Section req))
                else
                  (case (case e_value (elementObject sfs' w) of
                           None \<Rightarrow> None
                         | Some v \<Rightarrow> validaters H v) of
                     Some (Some msg) \<Rightarrow> Inl (FailedValidation msg)
                   | _ \<Rightarrow> Inr (elementObject sfs' w, object\<lparr> c_sections := sfs' \<rparr>)))))"

definition New :: "config \<Rightarrow> overrider" where
  "New c = \<lparr> original = c, OptionNameFunc = OverrideFieldName \<rparr>"

definition Override :: "env \<Rightarrow> hooks \<Rightarrow> overrider \<Rightarrow> override \<Rightarrow> err + element" where
  "Override E H c req =
     (case applyOverride E H (OptionNameFunc c) (original c) req of
        Inl e \<Rightarrow> Inl e
      | Inr (el, object) \<Rightarrow> Inr el)"

subsection \<open>\<open>Sections\<close> and \<open>ElementKeys\<close> of the newer file\<close>

record section_walker =
  sw_sections :: "string \<rightharpoonup> element list"
  sw_elementKeys :: "string \<rightharpoonup> string"
  sw_currentSectionName :: string

definition newSectionWalker :: section_walker where
  "newSectionWalker =
     \<lparr> sw_sections = Map.empty, sw_elementKeys = Map.empty, sw_currentSectionName = [] \<rparr>"

definition is_struct_value :: "secval \<Rightarrow> bool" where
  "is_struct_value v =
     (case v of SecStruct s \<Rightarrow> True | SecPtr (Some s) \<Rightarrow> True | _ \<Rightarrow> False)"

definition sections_field :: "section_walker \<Rightarrow> secfield \<Rightarrow> section_walker" where
  "sections_field w sf =
     (case getSectionName (s_name sf) (s_tag sf) of
        (name, ok) \<Rightarrow>
          if ok then
            w\<lparr> sw_currentSectionName := name,
               sw_elementKeys := (sw_elementKeys w)(name \<mapsto> getElementKey (s_tag sf)),
               sw_sections :=
                 (if is_struct_value (s_val sf)
                  then (sw_sections w)(name \<mapsto> [\<lparr> e_value = Some (s_val sf), e_element = [] \<rparr>])
                  else sw_sections w) \<rparr>
          else w\<lparr> sw_currentSectionName := [] \<rparr>)"

definition elem_value :: "bool \<Rightarrow> gostruct \<Rightarrow> gostruct option \<Rightarrow> secval" where
  "elem_value p z x =
     (if p then SecPtr x else (case x of Some s \<Rightarrow> SecStruct s | None \<Rightarrow> SecStruct z))"

definition sections_SliceElem ::
  "optionNameFunc \<Rightarrow> section_walker \<Rightarrow> bool \<Rightarrow> gostruct \<Rightarrow> gostruct option \<Rightarrow> err + section_walker"
where
  "sections_SliceElem onf w p z x =
     (if sw_currentSectionName w = [] then Inr w
      else
        (case sw_elementKeys w (sw_currentSectionName w) of
           None \<Rightarrow> Inl (NoElementKeyForSection (sw_currentSectionName w))
         | Some key \<Rightarrow>
             (case findFieldByElementKey onf key x of
                None \<Rightarrow> Inl (NoFieldForElementKey key)
              | Some j \<Rightarrow>
                  (case x of
                     None \<Rightarrow> Inl (NoFieldForElementKey key)
                   | Some s \<Rightarrow>
                       (if type_kind (f_type (st_fields s ! j)) \<noteq> KString
                        then Inl (ElementKeyFieldNotString (f_type (st_fields s ! j)))
                        else
                          Inr (w\<lparr> sw_sections := (sw_sections w)
                                  (sw_currentSectionName w \<mapsto>
                                     (case sw_sections w (sw_currentSectionName w) of
                                        None \<Rightarrow> [] | Some es \<Rightarrow> es)
                                     @ [\<lparr> e_value = Some (elem_value p z x),
                                          e_element = rv_String (f_type (st_fields s ! j))
                                                        (f_val (st_fields s ! j)) \<rparr>]) \<rparr>))))))"

fun sections_elems ::
  "optionNameFunc \<Rightarrow> section_walker \<Rightarrow> bool \<Rightarrow> gostruct \<Rightarrow> gostruct option list \<Rightarrow> err + section_walker"
where
  "sections_elems onf w p z [] = Inr w"
| "sections_elems onf w p z (x # xs) =
     (case sections_SliceElem onf w p z x of
        Inl e \<Rightarrow> Inl e
      | Inr w' \<Rightarrow> sections_elems onf w' p z xs)"

fun sections_walk :: "optionNameFunc \<Rightarrow> section_walker \<Rightarrow> secfield list \<Rightarrow> err + section_walker" where
  "sections_walk onf w [] = Inr w"
| "sections_walk onf w (sf # sfs) =
     (case (case s_val sf of
              SecSlice p z (Some xs) \<Rightarrow> sections_elems onf (sections_field w sf) p z xs
            | _ \<Rightarrow> Inr (sections_field w sf)) of
        Inl e \<Rightarrow> Inl e
      | Inr w' \<Rightarrow> sections_walk onf w' sfs)"

text \<open>
  \<open>sectionsMap\<close> sorts every section by element id. \<open>sort.Sort\<close> runs an insertion sort
  on a short slice, which keeps elements with equal ids in the order of the slice; the
  insertion sort of the model keeps that order.
\<close>

fun string_less :: "string \<Rightarrow> string \<Rightarrow> bool" where
  "string_less [] [] = False"
| "string_less [] (y # ys) = True"
| "string_less (x # xs) [] = False"
| "string_less (x # xs) (y # ys) =
     ((of_char x :: nat) < of_char y \<or> (x = y \<and> string_less xs ys))"

fun insert_element :: "element \<Rightarrow> element list \<Rightarrow> element list" where
  "insert_element e [] = [e]"
| "insert_element e (x # xs) =
     (if string_less (e_element x) (e_element e) then x # insert_element e xs else e # x # xs)"

definition sort_section :: "element list \<Rightarrow> element list" where
  "sort_section es = foldr insert_element es []"

definition sectionsMap :: "section_walker \<Rightarrow> (string \<rightharpoonup> element list)" where
  "sectionsMap w = (\<lambda>name. map_option sort_section (sw_sections w name))"

definition Sections :: "overrider \<Rightarrow> err + (string \<rightharpoonup> element list)" where
  "Sections c =
     (case sections_walk (OptionNameFunc c) newSectionWalker (c_sections (original c)) of
        Inl e \<Rightarrow> Inl e
      | Inr w \<Rightarrow> Inr (sectionsMap w))"

definition ElementKeys :: "overrider \<Rightarrow> err + (string \<rightharpoonup> string)" where
  "ElementKeys c =
     (case sections_walk (OptionNameFunc c) newSectionWalker (c_sections (original c)) of
        Inl e \<Rightarrow> Inl e
      | Inr w \<Rightarrow> Inr (sw_elementKeys w))"

text \<open>
  \<open>OverrideAll\<close> applies the overrides one after the other to the same copy and reads
  the sections of the copy.
\<close>

fun apply_all ::
  "env \<Rightarrow> hooks \<Rightarrow> optionNameFunc \<Rightarrow> config \<Rightarrow> override list \<Rightarrow> err + config"
where
  "apply_all E H onf object [] = Inr object"
| "apply_all E H onf object (r # rs) =
     (case applyOverride E H onf object r of
        Inl e \<Rightarrow> Inl (wrap (FailedToOverride (o_Section r) (o_Element r)) e)
      | Inr (el, object') \<Rightarrow> apply_all E H onf object' rs)"

definition OverrideAll ::
  "env \<Rightarrow> hooks \<Rightarrow> overrider \<Rightarrow> override list \<Rightarrow> err + (string \<rightharpoonup> element list)"
where
  "OverrideAll E H c rs =
     (case apply_all E H (OptionNameFunc c) (original c) rs of
        Inl e \<Rightarrow> Inl e
      | Inr object \<Rightarrow> Sections (c\<lparr> original := object \<rparr>))"

section \<open>The configuration of the tests\<close>

text \<open>
  \<open>TestConfig\<close> of \<open>service_test.go\<close> with the values of \<open>TestService_GetConfig\<close>, handed
  over as a pointer: two sections held by value, \<open>section-a\<close> with one option and
  \<open>section-b\<close> with an option and a redacted password.
\<close>

definition test_SectionA :: gostruct where
  "test_SectionA =
     \<lparr> st_type = ''SectionA'',
       st_fields = [\<lparr> f_name = ''Option1'', f_tag = [(''toml'', ''option-1'')],
                      f_type = predeclared KString, f_val = VString ''o1'' \<rparr>] \<rparr>"

definition test_SectionB :: gostruct where
  "test_SectionB =
     \<lparr> st_type = ''SectionB'',
       st_fields = [\<lparr> f_name = ''Option2'', f_tag = [(''toml'', ''option-2'')],
                      f_type = predeclared KString, f_val = VString ''o2'' \<rparr>,
                    \<lparr> f_name = ''Password'',
                      f_tag = [(''toml'', ''password''), (''override'', '',redact'')],
                      f_type = predeclared KString, f_val = VString [] \<rparr>] \<rparr>"

definition testConfig :: config where
  "testConfig =
     \<lparr> c_addr = True,
       c_sections =
         [\<lparr> s_name = ''SectionA'',
            s_tag = [(''toml'', ''section-a''), (''override'', ''section-a'')],
            s_val = SecStruct test_SectionA \<rparr>,
          \<lparr> s_name = ''SectionB'',
            s_tag = [(''toml'', ''section-b''), (''override'', ''section-b'')],
            s_val = SecStruct test_SectionB \<rparr>] \<rparr>"

text \<open>The same object with one more top-level field, \<open>Hostname string\<close>, without a tag.\<close>

definition testConfig_hostname :: config where
  "testConfig_hostname =
     testConfig\<lparr> c_sections := c_sections testConfig @
        [\<lparr> s_name = ''Hostname'', s_tag = [],
           s_val = SecScalar (predeclared KString) (VString ''localhost'') \<rparr>] \<rparr>"

definition no_hooks :: hooks where
  "no_hooks = \<lparr> validaters = (\<lambda>v. None), defaulters = (\<lambda>z. None) \<rparr>"

text \<open>Whether a top-level field of the object declares a section of that name.\<close>

definition declares_section :: "config \<Rightarrow> string \<Rightarrow> bool" where
  "declares_section c name =
     list_ex (\<lambda>sf. getSectionName (s_name sf) (s_tag sf) = (name, True)) (c_sections c)"

text \<open>Two delete requests for a section that the object does not declare.\<close>

definition delete_without_element :: override where
  "delete_without_element =
     \<lparr> o_Section = ''section-x'', o_Element = [], o_Options = [], o_Delete = True,
       o_Create = False \<rparr>"

definition delete_element :: override where
  "delete_element =
     \<lparr> o_Section = ''section-x'', o_Element = ''e1'', o_Options = [], o_Delete = True,
       o_Create = False \<rparr>"

text \<open>
  A section held by value with a redacted option of a struct type,
  \<open>Creds Credentials `override:",redact"`\<close>, that holds a token.
\<close>

definition Credentials :: gotype where
  "Credentials = TStruct ''Credentials'' [(''Token'', [], predeclared KString)]"

definition test_SectionCreds :: gostruct where
  "test_SectionCreds =
     \<lparr> st_type = ''SectionCreds'',
       st_fields = [\<lparr> f_name = ''URL'', f_tag = [], f_type = predeclared KString,
                      f_val = VString ''http://localhost'' \<rparr>,
                    \<lparr> f_name = ''Creds'', f_tag = [(''override'', '',redact'')],
                      f_type = Credentials, f_val = VStruct [VString ''secret''] \<rparr>] \<rparr>"

text \<open>
  Request bodies that set the option \<open>option-nonexistent\<close>, which no section declares;
  JSON numbers decode to \<open>float64\<close>, JSON arrays to \<open>[]interface{}\<close>. The first body sets
  that option alone, the second deletes it as well, the third sets \<open>option-1\<close> to a boolean
  besides, the fourth sets \<open>tags\<close> to an array besides.
\<close>

definition unknown_set :: updateAction where
  "unknown_set = set_action ''option-nonexistent'' (Some (predeclared KFloat64, VFloat (Finite 1)))"





text \<open>A store whose \<open>Get\<close> fails.\<close>

definition get_fails :: store_faults where
  "get_fails = no_faults\<lparr> Get_fault := (\<lambda>ident. Some ''database not open'') \<rparr>"

text \<open>The state that the first of these requests leaves behind, from an empty store.\<close>

definition after_rejected_post :: service_state where
  "after_rejected_post =
     snd (handleUpdateSection plain_env no_faults (NewService testConfig) fresh_state ''section-a''
            (Some unknown_set))"

section \<open>Properties of the adapters\<close>

text \<open>Each \<open>Update\<close> on its own: a bad argument list yields an error and the same service.\<close>

lemma telegram_Update_rejects:
  "bad_arguments is_telegram_config cs
   \<Longrightarrow> fst (telegram_Update s cs) \<noteq> None \<and> snd (telegram_Update s cs) = s"
  by (auto simp: bad_arguments_def is_telegram_config_def split: dyn.splits)

lemma slack_Update_rejects:
  "bad_arguments is_slack_config cs
   \<Longrightarrow> fst (slack_Update s cs) \<noteq> None \<and> snd (slack_Update s cs) = s"
  by (auto simp: bad_arguments_def is_slack_config_def split: dyn.splits)

lemma opsgenie_Update_rejects:
  "bad_arguments is_opsgenie_config cs
   \<Longrightarrow> fst (opsgenie_Update s cs) \<noteq> None \<and> snd (opsgenie_Update s cs) = s"
  by (auto simp: bad_arguments_def is_opsgenie_config_def split: dyn.splits)

lemma pagerduty_Update_rejects:
  "bad_arguments is_pagerduty_config cs
   \<Longrightarrow> fst (pagerduty_Update s cs) \<noteq> None \<and> snd (pagerduty_Update s cs) = s"
  by (auto simp: bad_arguments_def is_pagerduty_config_def split: dyn.splits)

lemma alerta_Update_rejects:
  "bad_arguments is_alerta_config cs
   \<Longrightarrow> fst (alerta_Update s cs) \<noteq> None \<and> snd (alerta_Update s cs) = s"
  by (auto simp: bad_arguments_def is_alerta_config_def split: dyn.splits)

lemma sensu_Update_rejects:
  "bad_arguments is_sensu_config cs
   \<Longrightarrow> fst (sensu_Update s cs) \<noteq> None \<and> snd (sensu_Update s cs) = s"
  by (auto simp: bad_arguments_def is_sensu_config_def split: dyn.splits)

lemma talk_Update_rejects:
  "bad_arguments is_talk_config cs
   \<Longrightarrow> fst (talk_Update s cs) \<noteq> None \<and> snd (talk_Update s cs) = s"
  by (auto simp: bad_arguments_def is_talk_config_def split: dyn.splits)

lemma hipchat_Update_rejects:
  "bad_arguments is_hipchat_config cs
   \<Longrightarrow> fst (hipchat_Update s cs) \<noteq> None \<and> snd (hipchat_Update s cs) = s"
  by (auto simp: bad_arguments_def is_hipchat_config_def split: dyn.splits)

lemma smtp_Update_rejects:
  "bad_arguments is_smtp_config cs
   \<Longrightarrow> fst (smtp_Update s cs) \<noteq> None \<and> snd (smtp_Update s cs) = s"
  by (auto simp: bad_arguments_def is_smtp_config_def split: dyn.splits)

lemma smtp2_Update_rejects:
  "bad_arguments is_smtp_config cs
   \<Longrightarrow> fst (smtp2_Update s cs) \<noteq> None \<and> snd (smtp2_Update s cs) = s"
  by (auto simp: bad_arguments_def is_smtp_config_def split: dyn.splits)

text \<open>
  Claim C9. An \<open>Update\<close> call whose argument list does not hold exactly one element, or
  whose single element is not of the adapter's own \<open>Config\<close> type, returns an error and
  leaves the stored configuration fields of the adapter as they were. Stated for every
  \<open>Update\<close> method of the sources: telegram, slack, opsgenie, pagerduty, alerta, sensu,
  talk, hipchat and the two versions of smtp.
\<close>

theorem Update_rejects_bad_arguments:
  "(bad_arguments is_telegram_config cs
      \<longrightarrow> fst (telegram_Update t cs) \<noteq> None \<and> snd (telegram_Update t cs) = t)
   \<and> (bad_arguments is_slack_config cs
      \<longrightarrow> fst (slack_Update s cs) \<noteq> None \<and> snd (slack_Update s cs) = s)
   \<and> (bad_arguments is_opsgenie_config cs
      \<longrightarrow> fst (opsgenie_Update og cs) \<noteq> None \<and> snd (opsgenie_Update og cs) = og)
   \<and> (bad_arguments is_pagerduty_config cs
      \<longrightarrow> fst (pagerduty_Update pd cs) \<noteq> None \<and> snd (pagerduty_Update pd cs) = pd)
   \<and> (bad_arguments is_alerta_config cs
      \<longrightarrow> fst (alerta_Update al cs) \<noteq> None \<and> snd (alerta_Update al cs) = al)
   \<and> (bad_arguments is_sensu_config cs
      \<longrightarrow> fst (sensu_Update se cs) \<noteq> None \<and> snd (sensu_Update se cs) = se)
   \<and> (bad_arguments is_talk_config cs
      \<longrightarrow> fst (talk_Update tk cs) \<noteq> None \<and> snd (talk_Update tk cs) = tk)
   \<and> (bad_arguments is_hipchat_config cs
      \<longrightarrow> fst (hipchat_Update hp cs) \<noteq> None \<and> snd (hipchat_Update hp cs) = hp)
   \<and> (bad_arguments is_smtp_config cs
      \<longrightarrow> fst (smtp_Update sm cs) \<noteq> None \<and> snd (smtp_Update sm cs) = sm)
   \<and> (bad_arguments is_smtp_config cs
      \<longrightarrow> fst (smtp2_Update sm2 cs) \<noteq> None \<and> snd (smtp2_Update sm2 cs) = sm2)"
  using telegram_Update_rejects [of cs t]
        slack_Update_rejects [of cs s]
        opsgenie_Update_rejects [of cs og]
        pagerduty_Update_rejects [of cs pd]
        alerta_Update_rejects [of cs al]
        sensu_Update_rejects [of cs se]
        talk_Update_rejects [of cs tk]
        hipchat_Update_rejects [of cs hp]
        smtp_Update_rejects [of cs sm]
        smtp2_Update_rejects [of cs sm2]
  by blast

theorem Update_rejects_bad_arguments_witness:
  "fst (telegram_Update telegram_example [DynNil]) = Some (UnexpectedConfigType DynNil)
   \<and> snd (telegram_Update telegram_example [DynNil]) = telegram_example
   \<and> fst (slack_Update slack_example [DynNil]) = Some (UnexpectedConfigType DynNil)
   \<and> snd (slack_Update slack_example [DynNil]) = slack_example
   \<and> fst (opsgenie_Update opsgenie_example [DynNil]) = Some (UnexpectedConfigType DynNil)
   \<and> snd (opsgenie_Update opsgenie_example [DynNil]) = opsgenie_example
   \<and> fst (pagerduty_Update pagerduty_example [DynNil]) = Some (UnexpectedConfigType DynNil)
   \<and> snd (pagerduty_Update pagerduty_example [DynNil]) = pagerduty_example
   \<and> fst (alerta_Update alerta_example [DynNil]) = Some (UnexpectedConfigType DynNil)
   \<and> snd (alerta_Update alerta_example [DynNil]) = alerta_example
   \<and> fst (sensu_Update sensu_example [DynNil]) = Some (UnexpectedConfigType DynNil)
   \<and> snd (sensu_Update sensu_example [DynNil]) = sensu_example
   \<and> fst (talk_Update talk_example [DynNil]) = Some (UnexpectedConfigType DynNil)
   \<and> snd (talk_Update talk_example [DynNil]) = talk_example
   \<and> fst (hipchat_Update hipchat_example [DynNil]) = Some (UnexpectedConfigType DynNil)
   \<and> snd (hipchat_Update hipchat_example [DynNil]) = hipchat_example
   \<and> fst (smtp_Update (smtp_NewService smtp_example_config) [DynNil]) = Some (UnexpectedConfigType DynNil)
   \<and> snd (smtp_Update (smtp_NewService smtp_example_config) [DynNil]) = smtp_NewService smtp_example_config
   \<and> fst (smtp2_Update (smtp2_NewService smtp_example_config) [DynNil]) = Some (UnexpectedConfigType DynNil)
   \<and> snd (smtp2_Update (smtp2_NewService smtp_example_config) [DynNil]) = smtp2_NewService smtp_example_config"
  using Update_rejects_bad_arguments
          [where cs = "[DynNil]" and t = telegram_example and s = slack_example
             and og = opsgenie_example and pd = pagerduty_example and al = alerta_example
             and se = sensu_example and tk = talk_example and hp = hipchat_example
             and sm = "smtp_NewService smtp_example_config"
             and ?sm2.0 = "smtp2_NewService smtp_example_config"]
  by (simp add: bad_arguments_def is_telegram_config_def is_slack_config_def
                is_opsgenie_config_def is_pagerduty_config_def is_alerta_config_def
                is_sensu_config_def is_talk_config_def is_hipchat_config_def is_smtp_config_def)

section \<open>Properties of the coercer\<close>

lemma float42: "to_float64 (Finite 42) = Finite 42" "to_float32 (Finite 42) = Finite 42"
  unfolding to_float64_def to_float32_def by code_simp+

lemma parse42: "ParseInt ''42'' = Some 42" "ParseUint ''42'' = Some 42"
  by (simp_all add: ParseInt_def ParseUint_def is_digit_def digit_val_def)

lemma wrap42:
  "wrap_signed 8 42 = 42" "wrap_signed 16 42 = 42" "wrap_signed 32 42 = 42" "wrap_signed 64 42 = 42"
  "wrap_unsigned 8 42 = 42" "wrap_unsigned 16 42 = 42" "wrap_unsigned 32 42 = 42"
  "wrap_unsigned 64 42 = 42"
  by (simp_all add: wrap_signed_def wrap_unsigned_def)

lemma trunc42: "trunc_zero 42 = 42"
  by (simp add: trunc_zero_def)

lemmas coerce_eval =
  numeric_kinds_def num42_def predeclared_def copy_plan_def unbox_def rv_Kind_def
  copy_direct_def isIntKind_def isUintKind_def isFloatKind_def isNumericKind_def addrDst_def
  cvtInt_def cvtFloat_def float_to_int64_def float_to_uint64_def SetInt_def SetUint_def SetFloat_def parse_into_def rv_String_def
  weakCopyValue_old_def assignable_def

lemma weakCopyValue_42_grid:
  assumes pf: "ParseFloat E ''42'' = Some (Finite 42)"
      and tu: "\<forall>k \<in> set numeric_kinds. textUnmarshalers E (predeclared k) = None"
  shows "list_all (\<lambda>src. list_all (\<lambda>dk.
            weakCopyValue E src True (predeclared dk) cur = Inr (num42 dk)) numeric_kinds) sources42"
  using tu by (simp add: sources42_def coerce_eval float42 parse42 wrap42 trunc42 pf)

lemma weakCopyValue_old_42_grid:
  assumes pf: "ParseFloat E ''42'' = Some (Finite 42)"
  shows "list_all (\<lambda>src. list_all (\<lambda>dk.
            weakCopyValue_old E src True (predeclared dk) cur = Inr (num42 dk)) numeric_kinds) sources42"
  by (simp add: sources42_def coerce_eval float42 parse42 wrap42 trunc42 pf)

text \<open>
  Claim C5. For every source among the signed integer kinds, the unsigned integer kinds,
  the float kinds (holding 42) and the string \<open>"42"\<close>, and for every destination field of
  a numeric kind (of the predeclared type of that kind, settable, whatever it held
  before), the assignment succeeds and the destination holds 42 in its own kind. This
  holds for the coercer of both versions of the file. \<open>strconv.ParseFloat\<close> is a
  parameter of the model and is assumed to read \<open>"42"\<close> as 42; predeclared types have no
  methods, so none of them is a text unmarshaler.
\<close>

theorem numeric_coercion_42:
  assumes "ParseFloat E ''42'' = Some (Finite 42)"
      and "\<forall>k \<in> set numeric_kinds. textUnmarshalers E (predeclared k) = None"
  shows "\<forall>src \<in> set sources42. \<forall>dk \<in> set numeric_kinds.
           weakCopyValue E src True (predeclared dk) cur = Inr (num42 dk)
         \<and> weakCopyValue_old E src True (predeclared dk) cur = Inr (num42 dk)"
  using weakCopyValue_42_grid [OF assms, of cur] weakCopyValue_old_42_grid [OF assms(1), of cur]
  by (simp add: list_all_iff)

theorem numeric_coercion_42_witness:
  "ParseFloat plain_env ''42'' = Some (Finite 42)
   \<and> Some (predeclared KString, VString ''42'') \<in> set sources42
   \<and> Some (predeclared KUint16, VUint 42) \<in> set sources42
   \<and> KFloat32 \<in> set numeric_kinds \<and> KInt8 \<in> set numeric_kinds
   \<and> weakCopyValue plain_env (Some (predeclared KString, VString ''42'')) True
        (predeclared KFloat32) (VFloat (Finite 0)) = Inr (VFloat (Finite 42))
   \<and> weakCopyValue_old plain_env (Some (predeclared KUint16, VUint 42)) True
        (predeclared KInt8) (VInt (- 1)) = Inr (VInt 42)"
proof -
  have pf: "ParseFloat plain_env ''42'' = Some (Finite 42)"
    by (simp add: plain_env_def)
  have tu: "\<forall>k \<in> set numeric_kinds. textUnmarshalers plain_env (predeclared k) = None"
    by (simp add: plain_env_def)
  have s1: "Some (predeclared KString, VString ''42'') \<in> set sources42"
    by (simp add: sources42_def)
  have s2: "Some (predeclared KUint16, VUint 42) \<in> set sources42"
    by (simp add: sources42_def numeric_kinds_def num42_def isIntKind_def isUintKind_def)
  have k1: "KFloat32 \<in> set numeric_kinds" and k2: "KInt8 \<in> set numeric_kinds"
    by (simp_all add: numeric_kinds_def)
  have n1: "num42 KFloat32 = VFloat (Finite 42)" and n2: "num42 KInt8 = VInt 42"
    by (simp_all add: num42_def isIntKind_def isUintKind_def)
  from numeric_coercion_42 [OF pf tu, of "VFloat (Finite 0)", rule_format, OF s1 k1]
       numeric_coercion_42 [OF pf tu, of "VInt (- 1)", rule_format, OF s2 k2]
  show ?thesis using pf s1 s2 k1 k2 n1 n2 by simp
qed

text \<open>
  Whatever \<open>UnmarshalText\<close> returns, the coercer of the newer file reports success once
  it has called it: the wrapped error is built and thrown away.
\<close>

lemma unmarshal_result_ignored:
  assumes "textUnmarshalers E dt = Some um" and "type_kind dt \<noteq> KString"
      and "type_kind dt \<noteq> KPtr"
  shows "weakCopyValue E (Some (predeclared KString, VString text)) True dt dv
         = Inr (fst (um text dv))"
  using assms
  by (cases dt)
     (auto simp: copy_plan_def unbox_def rv_Kind_def predeclared_def copy_direct_def addrDst_def
                 put_indirect_def rv_String_def)

text \<open>
  Claim C3 (the code departs from it). The destination is a field of type \<open>Duration\<close>,
  whose \<open>UnmarshalText\<close> fails on the text \<open>"forever"\<close>; the source is that string. The
  coercer calls \<open>UnmarshalText\<close>, the call returns an error, and the coercer returns no
  error: the field keeps its value and the override is reported as applied.
\<close>

theorem unmarshal_error_is_dropped:
  "textUnmarshalers duration_env (TScalar ''Duration'' KInt64) = Some reject_all
   \<and> snd (reject_all ''forever'' (VInt 5)) = Some ''invalid duration''
   \<and> weakCopyValue duration_env (Some (predeclared KString, VString ''forever'')) True
        (TScalar ''Duration'' KInt64) (VInt 5) = Inr (VInt 5)"
  by (simp add: duration_env_def reject_all_def copy_plan_def unbox_def rv_Kind_def
                predeclared_def copy_direct_def addrDst_def put_indirect_def rv_String_def)

section \<open>Properties of the config service\<close>

lemma map_of_alist_set: "map_of (alist_set k v m) = (map_of m)(k \<mapsto> v)"
  by (induction m) auto

lemma map_of_delete_key: "map_of (delete_key k m) = (map_of m)(k := None)"
  by (induction m) (auto simp: delete_key_def)



lemma delete_key_alist_set: "delete_key k (alist_set k v m) = delete_key k m"
  by (induction m) (auto simp: delete_key_def)




lemma merge_set_action: "merge_action m (set_action k x) = alist_set k x m"
  by (simp add: merge_action_def set_action_def)

lemma merge_delete_action: "merge_action m (delete_action k) = delete_key k m"
  by (simp add: merge_action_def delete_action_def)

text \<open>
  What the older walker changes: it adds to the used names, and it resolves the fields
  below the top-level fields that bear the section name.
\<close>

lemma elem_fields_simps [simp]:
  "elem_fields [] = []"
  "elem_fields (None # es) = elem_fields es"
  "elem_fields (Some s # es) = st_fields s @ elem_fields es"
  by (simp_all add: elem_fields_def)

lemma option_names_simps [simp]:
  "option_names onf [] = {}"
  "option_names onf (f # fs) = insert (onf (f_name f) (f_tag f)) (option_names onf fs)"
  "option_names onf (fs @ gs) = option_names onf fs \<union> option_names onf gs"
  by (auto simp: option_names_def)


lemma option_fields_old_frame:
  "option_fields_old E onf canSet w fs = Inr (fs', w') \<Longrightarrow>
     w' = w\<lparr> wo_used := wo_used w' \<rparr>
     \<and> set (wo_used w') \<subseteq> set (wo_used w) \<union>
          (if wo_currentSectionName w = wo_section w
           then option_names onf fs else {})"
proof (induction fs arbitrary: w fs' w')
  case Nil
  then show ?case by auto
next
  case (Cons f fs)
  show ?case
  proof (cases "wo_currentSectionName w \<noteq> wo_section w
                \<or> map_of (wo_set w) (onf (f_name f) (f_tag f)) = None")
    case True
    with Cons.prems obtain fs1 where "option_fields_old E onf canSet w fs = Inr (fs1, w')"
      by (auto split: sum.splits if_splits option.splits)
    from Cons.IH [OF this] show ?thesis by (auto split: if_splits)
  next
    case False
    then obtain sv where sv: "map_of (wo_set w) (onf (f_name f) (f_tag f)) = Some sv"
      and cur: "wo_currentSectionName w = wo_section w" by auto
    let ?w1 = "w\<lparr> wo_used := onf (f_name f) (f_tag f) # wo_used w \<rparr>"
    from Cons.prems sv cur obtain fs1 where
      "option_fields_old E onf canSet ?w1 fs = Inr (fs1, w')"
      by (auto split: sum.splits)
    from Cons.IH [OF this] cur show ?thesis
      by (auto split: if_splits)
  qed
qed

lemma option_fields_old_char:
  "option_fields_old E onf canSet w fs = Inr (fs', w') \<Longrightarrow>
     fs' = (if wo_currentSectionName w = wo_section w
            then map (resolve_field_old E onf canSet (wo_set w)) fs else fs)"
proof (induction fs arbitrary: w fs' w')
  case Nil
  then show ?case by auto
next
  case (Cons f fs)
  show ?case
  proof (cases "wo_currentSectionName w \<noteq> wo_section w
                \<or> map_of (wo_set w) (onf (f_name f) (f_tag f)) = None")
    case True
    with Cons.prems obtain fs1 where 1: "option_fields_old E onf canSet w fs = Inr (fs1, w')"
      and 2: "fs' = f # fs1"
      by (auto split: sum.splits if_splits option.splits)
    from Cons.IH [OF 1] 2 True show ?thesis
      by (auto simp: resolve_field_old_def)
  next
    case False
    then obtain sv where sv: "map_of (wo_set w) (onf (f_name f) (f_tag f)) = Some sv"
      and cur: "wo_currentSectionName w = wo_section w" by auto
    let ?w1 = "w\<lparr> wo_used := onf (f_name f) (f_tag f) # wo_used w \<rparr>"
    from Cons.prems sv cur obtain v fs1 where
      0: "weakCopyValue_old E sv canSet (f_type f) (f_val f) = Inr v"
      and 1: "option_fields_old E onf canSet ?w1 fs = Inr (fs1, w')"
      and 2: "fs' = f\<lparr> f_val := v \<rparr> # fs1"
      by (auto split: sum.splits)
    from Cons.IH [OF 1] 0 2 sv cur show ?thesis
      by (auto simp: resolve_field_old_def)
  qed
qed

lemma option_struct_old_frame:
  assumes "option_struct_old E onf canSet w s = Inr (s', w')"
  shows "w' = w\<lparr> wo_used := wo_used w' \<rparr>"
    and "set (wo_used w') \<subseteq> set (wo_used w) \<union>
          (if wo_currentSectionName w = wo_section w
           then option_names onf (st_fields s) else {})"
    and "s' = (if wo_currentSectionName w = wo_section w
               then resolve_struct_old E onf canSet (wo_set w) s else s)"
proof -
  from assms obtain fs' where 1: "option_fields_old E onf canSet w (st_fields s) = Inr (fs', w')"
    and 2: "s' = s\<lparr> st_fields := fs' \<rparr>"
    by (auto simp: option_struct_old_def split: sum.splits)
  from option_fields_old_frame [OF 1]
  show "w' = w\<lparr> wo_used := wo_used w' \<rparr>"
    and "set (wo_used w') \<subseteq> set (wo_used w) \<union>
          (if wo_currentSectionName w = wo_section w
           then option_names onf (st_fields s) else {})"
    by blast+
  from option_fields_old_char [OF 1] 2
  show "s' = (if wo_currentSectionName w = wo_section w
               then resolve_struct_old E onf canSet (wo_set w) s else s)"
    by (auto simp: resolve_struct_old_def)
qed

lemma option_elems_old_frame:
  "option_elems_old E onf w es = Inr (es', w') \<Longrightarrow>
     w' = w\<lparr> wo_used := wo_used w' \<rparr>
     \<and> set (wo_used w') \<subseteq> set (wo_used w) \<union>
          (if wo_currentSectionName w = wo_section w
           then option_names onf (elem_fields es) else {})
     \<and> es' = (if wo_currentSectionName w = wo_section w
              then map (map_option (resolve_struct_old E onf True (wo_set w))) es else es)"
proof (induction es arbitrary: w es' w')
  case Nil
  then show ?case by auto
next
  case (Cons e es)
  show ?case
  proof (cases e)
    case None
    with Cons.prems obtain es1 where 1: "option_elems_old E onf w es = Inr (es1, w')"
      and 2: "es' = None # es1"
      by (auto split: sum.splits)
    from Cons.IH [OF 1] 2 None show ?thesis
      by auto
  next
    case (Some s)
    with Cons.prems obtain s' w1 es1 where
      0: "option_struct_old E onf True w s = Inr (s', w1)"
      and 1: "option_elems_old E onf w1 es = Inr (es1, w')"
      and 2: "es' = Some s' # es1"
      by (auto split: sum.splits)
    note f = option_struct_old_frame [OF 0]
    have eq: "wo_currentSectionName w1 = wo_currentSectionName w" "wo_section w1 = wo_section w"
      "wo_set w1 = wo_set w"
      by (subst f(1), simp)+
    from Cons.IH [OF 1] have
      a: "w' = w1\<lparr> wo_used := wo_used w' \<rparr>"
      and b: "set (wo_used w') \<subseteq> set (wo_used w1) \<union>
          (if wo_currentSectionName w = wo_section w
           then option_names onf (elem_fields es) else {})"
      and c: "es1 = (if wo_currentSectionName w = wo_section w
              then map (map_option (resolve_struct_old E onf True (wo_set w))) es else es)"
      by (simp_all add: eq)
    have "w' = w\<lparr> wo_used := wo_used w' \<rparr>"
      by (subst a, subst f(1)) simp
    moreover have "set (wo_used w') \<subseteq> set (wo_used w) \<union>
          (if wo_currentSectionName w = wo_section w
           then option_names onf (elem_fields (e # es)) else {})"
      using b f(2) Some by (auto split: if_splits)
    moreover have "es' = (if wo_currentSectionName w = wo_section w
              then map (map_option (resolve_struct_old E onf True (wo_set w))) (e # es) else e # es)"
      using c f(3) 2 Some by auto
    ultimately show ?thesis by blast
  qed
qed


lemma Split_not_Nil: "Split c s \<noteq> []"
  by (induction s) (auto split: list.splits)

lemma getSectionName_old_ok: "snd (getSectionName_old n t) = True"
  using Split_not_Nil [of "CHR '',''" "Tag_Get t structTagKey"]
  by (simp add: getSectionName_old_def)

lemma section_field_old_eq:
  "section_field_old w i sf =
     (if wo_section w = fst (getSectionName_old (s_name sf) (s_tag sf))
      then w\<lparr> wo_currentSectionName := fst (getSectionName_old (s_name sf) (s_tag sf)),
              wo_sectionValue := Some i \<rparr>
      else w\<lparr> wo_currentSectionName := fst (getSectionName_old (s_name sf) (s_tag sf)) \<rparr>)"
  using getSectionName_old_ok [of "s_name sf" "s_tag sf"]
  by (cases "getSectionName_old (s_name sf) (s_tag sf)") (simp add: section_field_old_def)

lemma walk_value_old_frame:
  assumes "walk_value_old E onf addr w v = Inr (v', w')"
  shows "w' = w\<lparr> wo_used := wo_used w' \<rparr>"
    and "set (wo_used w') \<subseteq> set (wo_used w) \<union>
          (if wo_currentSectionName w = wo_section w
           then option_names onf (fields_of v) else {})"
    and "v' = (if wo_currentSectionName w = wo_section w
               then resolve_secval_old E onf addr (wo_set w) v else v)"
proof -
  let ?P1 = "w' = w\<lparr> wo_used := wo_used w' \<rparr>"
  let ?P2 = "set (wo_used w') \<subseteq> set (wo_used w) \<union>
          (if wo_currentSectionName w = wo_section w
           then option_names onf (fields_of v) else {})"
  let ?P3 = "v' = (if wo_currentSectionName w = wo_section w
               then resolve_secval_old E onf addr (wo_set w) v else v)"
  have "?P1 \<and> ?P2 \<and> ?P3"
  proof (cases v)
    case (SecStruct s)
    with assms obtain s' where 1: "option_struct_old E onf addr w s = Inr (s', w')"
      and 2: "v' = SecStruct s'"
      by (auto simp: walk_value_old_def split: sum.splits)
    have "?P2 \<and> ?P3"
      using option_struct_old_frame(2,3) [OF 1] 2 SecStruct
      by (auto simp: fields_of_def resolve_secval_old_def split: if_splits)
    with option_struct_old_frame(1) [OF 1] show ?thesis by blast
  next
    case (SecPtr p)
    show ?thesis
    proof (cases p)
      case None
      with assms SecPtr show ?thesis
        by (auto simp: walk_value_old_def fields_of_def resolve_secval_old_def)
    next
      case (Some s)
      with assms SecPtr obtain s' where 1: "option_struct_old E onf True w s = Inr (s', w')"
        and 2: "v' = SecPtr (Some s')"
        by (auto simp: walk_value_old_def split: sum.splits)
      have "?P2 \<and> ?P3"
        using option_struct_old_frame(2,3) [OF 1] 2 SecPtr Some
        by (auto simp: fields_of_def resolve_secval_old_def split: if_splits)
      with option_struct_old_frame(1) [OF 1] show ?thesis by blast
    qed
  next
    case (SecSlice p z xs)
    show ?thesis
    proof (cases xs)
      case None
      with assms SecSlice show ?thesis
        by (auto simp: walk_value_old_def fields_of_def resolve_secval_old_def)
    next
      case (Some es)
      with assms SecSlice obtain es' where 1: "option_elems_old E onf w es = Inr (es', w')"
        and 2: "v' = SecSlice p z (Some es')"
        by (auto simp: walk_value_old_def split: sum.splits)
      note f = option_elems_old_frame [OF 1]
      have "?P2 \<and> ?P3"
        using f [THEN conjunct2] 2 SecSlice Some
        by (auto simp: fields_of_def resolve_secval_old_def split: if_splits)
      with f [THEN conjunct1] show ?thesis by blast
    qed
  next
    case (SecScalar t x)
    with assms show ?thesis
      by (auto simp: walk_value_old_def fields_of_def resolve_secval_old_def)
  qed
  then show ?P1 and ?P2 and ?P3
    by blast+
qed

lemma find_section_old_Nil [simp]: "find_section_old sec [] = None"
  by (simp add: find_section_old_def)

lemma find_section_old_Cons:
  "find_section_old sec (sf # sfs) =
     (case find_section_old sec sfs of
        Some v \<Rightarrow> Some v
      | None \<Rightarrow> if sec_name_old sf = sec then Some (s_val sf) else None)"
  by (auto simp: find_section_old_def split: list.splits)


lemma section_options_old_simps [simp]:
  "section_options_old onf sec [] = {}"
  "section_options_old onf sec (sf # sfs) =
     (if sec_name_old sf = sec then option_names onf (fields_of (s_val sf)) else {})
     \<union> section_options_old onf sec sfs"
  by (auto simp: section_options_old_def)

lemma walk_sections_old_char:
  "walk_sections_old E onf addr w i sfs = Inr (sfs', w') \<Longrightarrow>
     wo_section w' = wo_section w \<and> wo_set w' = wo_set w
     \<and> set (wo_used w') \<subseteq> set (wo_used w) \<union> section_options_old onf (wo_section w) sfs
     \<and> length sfs' = length sfs
     \<and> (case find_section_old (wo_section w) sfs of
           None \<Rightarrow> wo_sectionValue w' = wo_sectionValue w
         | Some v0 \<Rightarrow>
             (\<exists>j < length sfs. wo_sectionValue w' = Some (i + j)
                \<and> s_val (sfs' ! j) = resolve_secval_old E onf addr (wo_set w) v0))"
proof (induction sfs arbitrary: w i sfs' w')
  case Nil
  then show ?case by auto
next
  case (Cons sf sfs)
  let ?w0 = "section_field_old w i sf"
  from Cons.prems obtain v' w1 sfs1 where
    1: "walk_value_old E onf addr ?w0 (s_val sf) = Inr (v', w1)"
    and 2: "walk_sections_old E onf addr w1 (Suc i) sfs = Inr (sfs1, w')"
    and 3: "sfs' = sf\<lparr> s_val := v' \<rparr> # sfs1"
    by (auto split: sum.splits)
  note f = walk_value_old_frame [OF 1]
  have w0: "wo_section ?w0 = wo_section w" "wo_set ?w0 = wo_set w" "wo_used ?w0 = wo_used w"
    "wo_currentSectionName ?w0 = sec_name_old sf"
    "wo_sectionValue ?w0 = (if sec_name_old sf = wo_section w then Some i else wo_sectionValue w)"
    by (auto simp: section_field_old_eq sec_name_old_def)
  have w1: "wo_section w1 = wo_section w" "wo_set w1 = wo_set w"
    "wo_sectionValue w1 = (if sec_name_old sf = wo_section w then Some i else wo_sectionValue w)"
    by (subst f(1), simp add: w0)+
  have u1: "set (wo_used w1) \<subseteq> set (wo_used w) \<union>
              (if sec_name_old sf = wo_section w then option_names onf (fields_of (s_val sf)) else {})"
    using f(2) by (simp add: w0)
  have v': "v' = (if sec_name_old sf = wo_section w
                  then resolve_secval_old E onf addr (wo_set w) (s_val sf) else s_val sf)"
    using f(3) by (simp add: w0)
  note ih = Cons.IH [OF 2, unfolded w1]
  have a: "wo_section w' = wo_section w \<and> wo_set w' = wo_set w \<and> length sfs' = length (sf # sfs)"
    using ih 3 by simp
  have b: "set (wo_used w') \<subseteq> set (wo_used w) \<union> section_options_old onf (wo_section w) (sf # sfs)"
    using ih u1 by (auto split: if_splits)
  have c: "(case find_section_old (wo_section w) (sf # sfs) of
           None \<Rightarrow> wo_sectionValue w' = wo_sectionValue w
         | Some v0 \<Rightarrow>
             (\<exists>j < length (sf # sfs). wo_sectionValue w' = Some (i + j)
                \<and> s_val (sfs' ! j) = resolve_secval_old E onf addr (wo_set w) v0))"
  proof (cases "find_section_old (wo_section w) sfs")
    case None
    with ih have sv: "wo_sectionValue w' =
        (if sec_name_old sf = wo_section w then Some i else wo_sectionValue w)"
      by simp
    show ?thesis
    proof (cases "sec_name_old sf = wo_section w")
      case True
      with None sv v' 3 show ?thesis
        by (auto simp: find_section_old_Cons intro!: exI [of _ 0])
    next
      case False
      with None sv show ?thesis
        by (simp add: find_section_old_Cons)
    qed
  next
    case (Some v0)
    with ih obtain j where "j < length sfs" "wo_sectionValue w' = Some (Suc i + j)"
      "s_val (sfs1 ! j) = resolve_secval_old E onf addr (wo_set w) v0"
      by auto
    with Some 3 show ?thesis
      by (auto simp: find_section_old_Cons intro!: exI [of _ "Suc j"])
  qed
  from a b c show ?case by simp
qed

lemma Override_old_char:
  assumes "Override_old E c sec m = Inr v"
  shows "\<exists>v0. find_section_old sec (c_sections (original c)) = Some v0
              \<and> v = resolve_secval_old E (OptionNameFunc c) (c_addr (original c)) m v0"
proof -
  let ?w = "newOverrideWalker_old sec m"
  from assms obtain sfs' w' where
    1: "walk_sections_old E (OptionNameFunc c) (c_addr (original c)) ?w 0 (c_sections (original c))
        = Inr (sfs', w')"
    and 2: "wo_sectionValue w' \<noteq> None"
    and 3: "v = s_val (sfs' ! the (wo_sectionValue w'))"
    by (auto simp: Override_old_def split: if_splits sum.splits option.splits)
  from walk_sections_old_char [OF 1] 2 3 show ?thesis
    by (auto simp: newOverrideWalker_old_def split: option.splits)
qed



lemma handle_store:
  assumes "sec \<noteq> []" and "Get_fault F sec = None"
      and "Set_fault F sec (merge_action (stored s sec) ua) = None"
  shows "ss_overrides (snd (handleUpdateSection E F c s sec (Some ua)))
           = (ss_overrides s)(sec \<mapsto> merge_action (stored s sec) ua)"
  using assms
  by (cases "Override_old E c sec (merge_action (stored s sec) ua)")
     (simp_all add: handleUpdateSection_def applyUpdateAction_def stored_def Let_def)


lemma handle_failure:
  assumes "sec \<noteq> []" and "Get_fault F sec = None"
      and "Set_fault F sec (merge_action (stored s sec) ua) = None"
      and "Override_old E c sec (merge_action (stored s sec) ua) = Inl e"
  shows "fst (handleUpdateSection E F c s sec (Some ua)) = failure_response e"
    and "ss_updates (snd (handleUpdateSection E F c s sec (Some ua))) = ss_updates s"
  using assms
  by (simp_all add: handleUpdateSection_def applyUpdateAction_def stored_def Let_def)

lemma handle_success:
  assumes "sec \<noteq> []" and "Get_fault F sec = None"
      and "Set_fault F sec (merge_action (stored s sec) ua) = None"
      and "Override_old E c sec (merge_action (stored s sec) ua) = Inr v"
  shows "fst (handleUpdateSection E F c s sec (Some ua)) = NoContent"
    and "ss_updates (snd (handleUpdateSection E F c s sec (Some ua))) = ss_updates s @ [(sec, v)]"
  using assms
  by (simp_all add: handleUpdateSection_def applyUpdateAction_def stored_def Let_def)

lemma failure_response_not_NoContent: "failure_response e \<noteq> NoContent"
  by (cases e) (simp_all add: failure_response_def)




text \<open>
  Resolving with a set of overrides touches a field only through the override of its own
  option name; without overrides, \<open>Override\<close> returns the section as it is.
\<close>

lemma resolve_field_old_untouched:
  "map_of m (onf (f_name f) (f_tag f)) = None \<Longrightarrow> resolve_field_old E onf cs m f = f"
  by (simp add: resolve_field_old_def)

lemma resolve_field_old_cong:
  "map_of m (onf (f_name f) (f_tag f)) = map_of m' (onf (f_name f) (f_tag f)) \<Longrightarrow>
     resolve_field_old E onf cs m f = resolve_field_old E onf cs m' f"
  by (simp add: resolve_field_old_def)

lemma elem_fields_resolve:
  "elem_fields (map (map_option (resolve_struct_old E onf cs m)) es)
     = map (resolve_field_old E onf cs m) (elem_fields es)"
proof (induction es)
  case Nil
  show ?case by simp
next
  case (Cons e es)
  then show ?case by (cases e) (simp_all add: resolve_struct_old_def)
qed

lemma fields_of_resolve:
  "fields_of (resolve_secval_old E onf addr m v)
     = map (resolve_field_old E onf (fields_settable addr v) m) (fields_of v)"
  by (auto simp: resolve_secval_old_def fields_of_def fields_settable_def resolve_struct_old_def
                 elem_fields_resolve split: secval.splits option.splits)

lemma resolve_struct_old_empty: "resolve_struct_old E onf cs [] s = s"
proof -
  have "resolve_field_old E onf cs [] = (\<lambda>f. f)"
    by (rule ext) (simp add: resolve_field_old_def)
  then show ?thesis
    by (simp add: resolve_struct_old_def)
qed

lemma resolve_secval_old_empty: "resolve_secval_old E onf addr [] v = v"
proof -
  have "map (map_option (resolve_struct_old E onf True [])) es = es" for es
    by (induction es) (auto simp: resolve_struct_old_empty option.map_ident split: option.splits)
  then show ?thesis
    by (auto simp: resolve_secval_old_def resolve_struct_old_empty split: secval.splits option.splits)
qed

lemma option_fields_old_empty:
  "wo_set w = [] \<Longrightarrow> option_fields_old E onf cs w fs = Inr (fs, w)"
  by (induction fs) auto

lemma option_elems_old_empty:
  "wo_set w = [] \<Longrightarrow> option_elems_old E onf w es = Inr (es, w)"
proof (induction es)
  case Nil
  show ?case by simp
next
  case (Cons e es)
  then show ?case
    by (cases e) (simp_all add: option_struct_old_def option_fields_old_empty)
qed

lemma walk_value_old_empty:
  "wo_set w = [] \<Longrightarrow> walk_value_old E onf addr w v = Inr (v, w)"
  by (auto simp: walk_value_old_def option_struct_old_def option_fields_old_empty
                 option_elems_old_empty split: secval.splits option.splits)

lemma walk_sections_old_empty:
  "wo_set w = [] \<Longrightarrow> \<exists>sfs' w'. walk_sections_old E onf addr w i sfs = Inr (sfs', w')"
proof (induction sfs arbitrary: w i)
  case Nil
  show ?case by simp
next
  case (Cons sf sfs)
  have e: "wo_set (section_field_old w i sf) = []"
    using Cons.prems by (simp add: section_field_old_eq)
  from Cons.IH [OF e, of "Suc i"] walk_value_old_empty [OF e, of E onf addr "s_val sf"]
  show ?case by auto
qed

lemma Override_old_no_overrides:
  assumes "sec \<noteq> []" and "find_section_old sec (c_sections (original c)) = Some v0"
  shows "Override_old E c sec [] = Inr v0"
proof -
  let ?w = "newOverrideWalker_old sec []"
  have "wo_set ?w = []" by (simp add: newOverrideWalker_old_def)
  from walk_sections_old_empty [OF this]
  obtain sfs' w' where
    1: "walk_sections_old E (OptionNameFunc c) (c_addr (original c)) ?w 0 (c_sections (original c))
        = Inr (sfs', w')"
    by blast
  from walk_sections_old_char [OF 1] assms(2)
  obtain j where "wo_set w' = []" "wo_sectionValue w' = Some j" "s_val (sfs' ! j) = v0"
    by (auto simp: newOverrideWalker_old_def resolve_secval_old_empty)
  with 1 assms(1) show ?thesis
    by (simp add: Override_old_def unused_old_def)
qed

lemma round_trip_eq:
  assumes "sec \<noteq> []" and "Get_fault F sec = None"
      and "Set_fault F sec (alist_set k x (stored s sec)) = None"
      and "Set_fault F sec (delete_key k (stored s sec)) = None"
  shows "ss_overrides (snd (round_trip E F c s sec k x))
           = (ss_overrides s)(sec \<mapsto> delete_key k (stored s sec))"
    and "Override_old E c sec (delete_key k (stored s sec)) = Inr v \<Longrightarrow>
           fst (round_trip E F c s sec k x) = NoContent
           \<and> last (ss_updates (snd (round_trip E F c s sec k x))) = (sec, v)"
    and "Override_old E c sec (delete_key k (stored s sec)) = Inl e \<Longrightarrow>
           fst (round_trip E F c s sec k x) = failure_response e
           \<and> ss_updates (snd (round_trip E F c s sec k x))
               = ss_updates (snd (handleUpdateSection E F c s sec (Some (set_action k x))))"
proof -
  let ?s1 = "snd (handleUpdateSection E F c s sec (Some (set_action k x)))"
  have f1: "Set_fault F sec (merge_action (stored s sec) (set_action k x)) = None"
    by (simp add: merge_set_action assms(3))
  note h1 = handle_store [OF assms(1,2) f1, of E c]
  have st1: "stored ?s1 sec = alist_set k x (stored s sec)"
    by (simp add: h1 stored_def [of ?s1] merge_set_action)
  have m: "merge_action (stored ?s1 sec) (delete_action k) = delete_key k (stored s sec)"
    by (simp add: st1 merge_delete_action delete_key_alist_set)
  have f2: "Set_fault F sec (merge_action (stored ?s1 sec) (delete_action k)) = None"
    by (simp add: m assms(4))
  note h2 = handle_store [OF assms(1,2) f2, of E c]
  show "ss_overrides (snd (round_trip E F c s sec k x))
           = (ss_overrides s)(sec \<mapsto> delete_key k (stored s sec))"
    unfolding round_trip_def by (simp add: h2 m h1)
  {
    assume "Override_old E c sec (delete_key k (stored s sec)) = Inr v"
    then have "Override_old E c sec (merge_action (stored ?s1 sec) (delete_action k)) = Inr v"
      by (simp add: m)
    from handle_success [OF assms(1,2) f2 this]
    show "fst (round_trip E F c s sec k x) = NoContent
             \<and> last (ss_updates (snd (round_trip E F c s sec k x))) = (sec, v)"
      by (simp add: round_trip_def)
  }
  {
    assume "Override_old E c sec (delete_key k (stored s sec)) = Inl e"
    then have "Override_old E c sec (merge_action (stored ?s1 sec) (delete_action k)) = Inl e"
      by (simp add: m)
    from handle_failure [OF assms(1,2) f2 this]
    show "fst (round_trip E F c s sec k x) = failure_response e
           \<and> ss_updates (snd (round_trip E F c s sec k x)) = ss_updates ?s1"
      by (simp add: round_trip_def)
  }
qed

text \<open>
  Claim C7 as it stands fails. A request that set the undeclared option
  \<open>option-nonexistent\<close> on \<open>section-a\<close> has been refused, and the store holds that option
  since. Setting \<open>option-1\<close> and deleting it again are then both refused, nothing is
  published, and the configuration cannot be read: the section does not resolve, to its
  original value or to any other. The same happens when the store fails.
\<close>

theorem round_trip_counterexample:
  "ss_overrides after_rejected_post ''section-a''
     = Some [(''option-nonexistent'', Some (predeclared KFloat64, VFloat (Finite 1)))]
   \<and> fst (handleUpdateSection plain_env no_faults (NewService testConfig) after_rejected_post
             ''section-a'' (Some (set_action ''option-1'' (Some (predeclared KString, VString ''new-o1'')))))
       = BadRequest (FailedToUpdateConfig (UnknownOptions {''option-nonexistent''} ''section-a''))
   \<and> fst (round_trip plain_env no_faults (NewService testConfig) after_rejected_post
             ''section-a'' ''option-1'' (Some (predeclared KString, VString ''new-o1'')))
       = BadRequest (FailedToUpdateConfig (UnknownOptions {''option-nonexistent''} ''section-a''))
   \<and> ss_updates (snd (round_trip plain_env no_faults (NewService testConfig) after_rejected_post
                        ''section-a'' ''option-1'' (Some (predeclared KString, VString ''new-o1''))))
       = []
   \<and> isl (getConfig plain_env no_faults (NewService testConfig)
             (snd (round_trip plain_env no_faults (NewService testConfig) after_rejected_post
                     ''section-a'' ''option-1'' (Some (predeclared KString, VString ''new-o1'')))))
   \<and> fst (round_trip plain_env get_fails (NewService testConfig) fresh_state
             ''section-a'' ''option-1'' (Some (predeclared KString, VString ''new-o1'')))
       = BadRequest (FailedToUpdateConfig
           (FailedToRetrieveOverrides ''section-a'' ''database not open''))
   \<and> ss_updates (snd (round_trip plain_env get_fails (NewService testConfig) fresh_state
                        ''section-a'' ''option-1'' (Some (predeclared KString, VString ''new-o1''))))
       = []"
  by (intro conjI; code_simp)

text \<open>
  Claim C7, amended. Start from any state of the store, and let the calls of the store
  go through; set \<open>k\<close> to \<open>x\<close> on the section \<open>sec\<close>, then delete \<open>k\<close>. Whether or not
  the first request is accepted, the store then holds, for \<open>sec\<close>, the record it held
  before without \<open>k\<close>.

  \<^item> If the section resolves under that record, the second request succeeds and
    publishes a section in which every option named \<open>k\<close> is the field of the original
    object, and every other option is what it was in the section resolved under the
    record held before the two requests.
  \<^item> When the record holds no other override and the object has the section, the
    section does resolve: the second request succeeds and publishes the original
    section.
  \<^item> If the section does not resolve under that record, the second request fails with
    the error of that resolution and publishes nothing.
\<close>

theorem set_then_delete_round_trip:
  assumes "sec \<noteq> []" and "Get_fault F sec = None"
      and "Set_fault F sec (alist_set k x (stored s sec)) = None"
      and "Set_fault F sec (delete_key k (stored s sec)) = None"
  shows "ss_overrides (snd (round_trip E F c s sec k x))
           = (ss_overrides s)(sec \<mapsto> delete_key k (stored s sec))
       \<and> map_of (delete_key k (stored s sec)) k = None
       \<and> (\<forall>v. Override_old E c sec (delete_key k (stored s sec)) = Inr v \<longrightarrow>
             fst (round_trip E F c s sec k x) = NoContent
           \<and> last (ss_updates (snd (round_trip E F c s sec k x))) = (sec, v)
           \<and> (\<exists>v0. find_section_old sec (c_sections (original c)) = Some v0
                \<and> length (fields_of v) = length (fields_of v0)
                \<and> (\<forall>n < length (fields_of v0).
                     (OptionNameFunc c (f_name (fields_of v0 ! n)) (f_tag (fields_of v0 ! n)) = k
                        \<longrightarrow> fields_of v ! n = fields_of v0 ! n)
                   \<and> (OptionNameFunc c (f_name (fields_of v0 ! n)) (f_tag (fields_of v0 ! n)) \<noteq> k
                        \<longrightarrow> (\<forall>vb. Override_old E c sec (stored s sec) = Inr vb
                               \<longrightarrow> fields_of v ! n = fields_of vb ! n)))))
       \<and> (\<forall>v0. find_section_old sec (c_sections (original c)) = Some v0
                \<and> delete_key k (stored s sec) = []
             \<longrightarrow> fst (round_trip E F c s sec k x) = NoContent
               \<and> last (ss_updates (snd (round_trip E F c s sec k x))) = (sec, v0))
       \<and> (\<forall>e. Override_old E c sec (delete_key k (stored s sec)) = Inl e \<longrightarrow>
             fst (round_trip E F c s sec k x) = failure_response e
           \<and> ss_updates (snd (round_trip E F c s sec k x))
               = ss_updates (snd (handleUpdateSection E F c s sec (Some (set_action k x)))))"
proof (intro conjI allI impI)
  let ?onf = "OptionNameFunc c" and ?addr = "c_addr (original c)"
  let ?m0 = "stored s sec" and ?m2 = "delete_key k (stored s sec)"
  show "ss_overrides (snd (round_trip E F c s sec k x)) = (ss_overrides s)(sec \<mapsto> ?m2)"
    by (rule round_trip_eq(1) [OF assms])
  show "map_of ?m2 k = None"
    by (simp add: map_of_delete_key)
  {
    fix v assume v: "Override_old E c sec ?m2 = Inr v"
    from round_trip_eq(2) [OF assms v]
    show "fst (round_trip E F c s sec k x) = NoContent"
      and "last (ss_updates (snd (round_trip E F c s sec k x))) = (sec, v)"
      by simp_all
    from Override_old_char [OF v] obtain v0 where
      f: "find_section_old sec (c_sections (original c)) = Some v0"
      and r: "v = resolve_secval_old E ?onf ?addr ?m2 v0"
      by blast
    have fv: "fields_of v = map (resolve_field_old E ?onf (fields_settable ?addr v0) ?m2) (fields_of v0)"
      by (simp add: r fields_of_resolve)
    have 1: "length (fields_of v) = length (fields_of v0)"
      by (simp add: fv)
    have 2: "fields_of v ! n = fields_of v0 ! n"
      if "n < length (fields_of v0)" "?onf (f_name (fields_of v0 ! n)) (f_tag (fields_of v0 ! n)) = k"
      for n
      using that by (simp add: fv resolve_field_old_untouched map_of_delete_key)
    have 3: "fields_of v ! n = fields_of vb ! n"
      if "n < length (fields_of v0)" "?onf (f_name (fields_of v0 ! n)) (f_tag (fields_of v0 ! n)) \<noteq> k"
        "Override_old E c sec ?m0 = Inr vb"
      for n vb
    proof -
      from Override_old_char [OF that(3)] f
      have "vb = resolve_secval_old E ?onf ?addr ?m0 v0" by simp
      then have "fields_of vb = map (resolve_field_old E ?onf (fields_settable ?addr v0) ?m0) (fields_of v0)"
        by (simp add: fields_of_resolve)
      with that(1,2) show ?thesis
        by (simp add: fv map_of_delete_key cong: resolve_field_old_cong)
    qed
    from f 1 2 3
    show "\<exists>v0. find_section_old sec (c_sections (original c)) = Some v0
                \<and> length (fields_of v) = length (fields_of v0)
                \<and> (\<forall>n < length (fields_of v0).
                     (?onf (f_name (fields_of v0 ! n)) (f_tag (fields_of v0 ! n)) = k
                        \<longrightarrow> fields_of v ! n = fields_of v0 ! n)
                   \<and> (?onf (f_name (fields_of v0 ! n)) (f_tag (fields_of v0 ! n)) \<noteq> k
                        \<longrightarrow> (\<forall>vb. Override_old E c sec ?m0 = Inr vb
                               \<longrightarrow> fields_of v ! n = fields_of vb ! n)))"
      by blast
  }
  {
    fix v0 assume a: "find_section_old sec (c_sections (original c)) = Some v0 \<and> ?m2 = []"
    then have "Override_old E c sec ?m2 = Inr v0"
      using Override_old_no_overrides [OF assms(1), of c v0 E] by simp
    from round_trip_eq(2) [OF assms this]
    show "fst (round_trip E F c s sec k x) = NoContent"
      and "last (ss_updates (snd (round_trip E F c s sec k x))) = (sec, v0)"
      by simp_all
  }
  {
    fix e assume e: "Override_old E c sec ?m2 = Inl e"
    from round_trip_eq(3) [OF assms e]
    show "fst (round_trip E F c s sec k x) = failure_response e"
      and "ss_updates (snd (round_trip E F c s sec k x))
             = ss_updates (snd (handleUpdateSection E F c s sec (Some (set_action k x))))"
      by simp_all
  }
qed

theorem set_then_delete_round_trip_witness:
  "fst (round_trip plain_env no_faults (NewService testConfig) fresh_state ''section-a''
          ''option-1'' (Some (predeclared KString, VString ''new-o1''))) = NoContent
   \<and> last (ss_updates (snd (round_trip plain_env no_faults (NewService testConfig) fresh_state
                               ''section-a'' ''option-1''
                               (Some (predeclared KString, VString ''new-o1'')))))
       = (''section-a'', SecStruct test_SectionA)"
proof -
  have 1: "''section-a'' \<noteq> []" by simp
  have 2: "find_section_old ''section-a'' (c_sections (original (NewService testConfig)))
             = Some (SecStruct test_SectionA)"
    by (simp add: find_section_old_def sec_name_old_def NewService_def testConfig_def
                  getSectionName_old_def Tag_Get_def structTagKey_def)
  have 3: "delete_key ''option-1'' (stored fresh_state ''section-a'') = []"
    by (simp add: delete_key_def stored_def fresh_state_def)
  have 4: "Get_fault no_faults ''section-a'' = None"
    and 5: "Set_fault no_faults ''section-a'' m = None" for m
    by (simp_all add: no_faults_def)
  from set_then_delete_round_trip
         [where sec = "''section-a''" and k = "''option-1''" and F = no_faults and E = plain_env
            and x = "Some (predeclared KString, VString ''new-o1'')" and s = fresh_state
            and c = "NewService testConfig", OF 1 4 5 5] 2 3
  show ?thesis by blast
qed

section \<open>Properties of the newer Overrider\<close>

text \<open>
  Claim C6. \<open>Override\<close> rejects a request that breaks a rule of self-consistency: an
  empty section; a delete without an element; a delete with options; a delete together
  with a create; a create with an element. The error is the one \<open>Validate\<close> returns,
  wrapped, and it is returned before the object is walked: \<open>applyOverride\<close> on any
  object returns it as well, so nothing has been changed.
\<close>

theorem Override_rejects_inconsistent_request:
  assumes "o_Section r = []
           \<or> (o_Delete r \<and> o_Element r = [])
           \<or> (o_Delete r \<and> o_Options r \<noteq> [])
           \<or> (o_Delete r \<and> o_Create r)
           \<or> (o_Create r \<and> o_Element r \<noteq> [])"
  shows "\<exists>e. Validate r = Some e
             \<and> applyOverride E H onf object r = Inl (InvalidOverride e)
             \<and> Override E H c r = Inl (InvalidOverride e)"
proof -
  from assms have "Validate r \<noteq> None"
    by (auto simp: Validate_def)
  then obtain e where v: "Validate r = Some e"
    by blast
  then show ?thesis
    by (simp add: applyOverride_def Override_def)
qed

theorem Override_rejects_inconsistent_request_witness:
  "Override plain_env no_hooks (New testConfig) delete_without_element
     = Inl (InvalidOverride ElementEmptyOnDelete)"
proof -
  have "o_Section delete_without_element = []
        \<or> (o_Delete delete_without_element \<and> o_Element delete_without_element = [])
        \<or> (o_Delete delete_without_element \<and> o_Options delete_without_element \<noteq> [])
        \<or> (o_Delete delete_without_element \<and> o_Create delete_without_element)
        \<or> (o_Create delete_without_element \<and> o_Element delete_without_element \<noteq> [])"
    by (simp add: delete_without_element_def)
  from Override_rejects_inconsistent_request [OF this, of plain_env no_hooks OverrideFieldName
         testConfig "New testConfig"]
  show ?thesis
    by (auto simp: Validate_def delete_without_element_def)
qed

text \<open>A walker that is not in the section of the request passes over everything.\<close>

lemma option_fields_other_section:
  "w_currentSectionName w \<noteq> o_Section (w_o w) \<Longrightarrow> option_fields E onf canSet w fs = Inr (fs, w)"
  by (induction fs) auto

lemma option_struct_other_section:
  "w_currentSectionName w \<noteq> o_Section (w_o w) \<Longrightarrow> option_struct E onf canSet w s = Inr (s, w)"
  by (simp add: option_struct_def option_fields_other_section)

lemma SliceElem_other_section:
  "w_currentSectionName w \<noteq> o_Section (w_o w) \<Longrightarrow> SliceElem onf addr w si i v = Inr (False, w)"
  by (simp add: SliceElem_def)

lemma walk_elems_other_section:
  "w_currentSectionName w \<noteq> o_Section (w_o w) \<Longrightarrow> walk_elems E onf addr w si i xs = Inr (xs, w)"
proof (induction E onf addr w si i xs rule: walk_elems.induct)
  case (1 E onf addr w si i xs)
  have se: "SliceElem onf addr w si i (xs ! i) = Inr (False, w)"
    using "1.prems" by (rule SliceElem_other_section)
  show ?case
  proof (cases "length xs \<le> i")
    case True
    then show ?thesis by (subst walk_elems.simps) simp
  next
    case False
    show ?thesis
    proof (cases "xs ! i")
      case None
      from "1.IH"(1) [OF False se refl] None "1.prems"
      have "walk_elems E onf addr w si (Suc i) xs = Inr (xs, w)" by simp
      with False se None show ?thesis by (subst walk_elems.simps) simp
    next
      case (Some s)
      have os: "option_struct E onf True w s = Inr (s, w)"
        using "1.prems" by (rule option_struct_other_section)
      from "1.IH"(2) [OF False se refl _ os refl] Some "1.prems"
      have "walk_elems E onf addr w si (Suc i) (xs[i := Some s]) = Inr (xs[i := Some s], w)"
        by simp
      moreover have "xs[i := Some s] = xs"
        using Some by (metis list_update_id)
      ultimately show ?thesis
        using False se Some os by (subst walk_elems.simps) simp
    qed
  qed
qed

lemma walk_value_other_section:
  "w_currentSectionName w \<noteq> o_Section (w_o w) \<Longrightarrow> walk_value E H onf addr w si v = Inr (v, w)"
  by (auto simp: walk_value_def option_struct_other_section Slice_def walk_elems_other_section
           split: secval.splits option.splits)

lemma section_field_no_match:
  assumes "getSectionName (s_name sf) (s_tag sf) \<noteq> (o_Section (w_o w), True)"
      and "o_Section (w_o w) \<noteq> []"
  shows "w_currentSectionName (section_field w i sf) \<noteq> o_Section (w_o w)"
    and "section_field w i sf
         = w\<lparr> w_currentSectionName := w_currentSectionName (section_field w i sf) \<rparr>"
  using assms by (auto simp: section_field_def split: prod.splits)

lemma walk_sections_no_match:
  assumes "\<forall>sf \<in> set sfs. getSectionName (s_name sf) (s_tag sf) \<noteq> (o_Section (w_o w), True)"
      and "o_Section (w_o w) \<noteq> []"
  shows "\<exists>nm. walk_sections E H onf addr w i sfs = Inr (sfs, w\<lparr> w_currentSectionName := nm \<rparr>)"
  using assms
proof (induction sfs arbitrary: w i)
  case Nil
  have "w = w\<lparr> w_currentSectionName := w_currentSectionName w \<rparr>" by simp
  then show ?case by (metis walk_sections.simps(1))
next
  case (Cons sf sfs)
  define nm where "nm = w_currentSectionName (section_field w i sf)"
  from section_field_no_match [of sf w i] Cons.prems
  have nm: "nm \<noteq> o_Section (w_o w)"
    and sf: "section_field w i sf = w\<lparr> w_currentSectionName := nm \<rparr>"
    by (auto simp: nm_def)
  let ?w1 = "w\<lparr> w_currentSectionName := nm \<rparr>"
  have wv: "walk_value E H onf addr ?w1 i (s_val sf) = Inr (s_val sf, ?w1)"
    using nm by (simp add: walk_value_other_section)
  from Cons.IH [of ?w1 "Suc i"] Cons.prems
  obtain nm' where "walk_sections E H onf addr ?w1 (Suc i) sfs
                    = Inr (sfs, ?w1\<lparr> w_currentSectionName := nm' \<rparr>)"
    by auto
  with sf wv show ?case by auto
qed

text \<open>
  Claim C10 as it stands fails: a delete request without an element name, for a section
  that the object does not declare, is refused by \<open>Validate\<close>.
\<close>

theorem delete_unknown_section_counterexample:
  "o_Delete delete_without_element
   \<and> \<not> declares_section testConfig (o_Section delete_without_element)
   \<and> Override plain_env no_hooks (New testConfig) delete_without_element
       = Inl (InvalidOverride ElementEmptyOnDelete)"
  by (simp add: delete_without_element_def declares_section_def testConfig_def
                getSectionName_def Tag_Get_def structTagKey_def Override_def applyOverride_def
                Validate_def)

text \<open>
  Claim C10, amended. For every request that passes \<open>Validate\<close> and has \<open>Delete\<close> set,
  and whose section no top-level field of the object declares, \<open>Override\<close> returns no
  error: it returns the zero \<open>Element\<close>.
\<close>

theorem delete_unknown_section_succeeds:
  assumes "o_Delete r" and "Validate r = None"
      and "\<not> declares_section (original c) (o_Section r)"
  shows "Override E H c r = Inr \<lparr> e_value = None, e_element = [] \<rparr>"
proof -
  let ?w = "newOverrideWalker r"
  have sec: "o_Section (w_o ?w) \<noteq> []" and opts: "o_Options r = []"
    using assms(1,2) by (auto simp: Validate_def newOverrideWalker_def split: if_splits)
  have "\<forall>sf \<in> set (c_sections (original c)).
          getSectionName (s_name sf) (s_tag sf) \<noteq> (o_Section (w_o ?w), True)"
    using assms(3) by (auto simp: declares_section_def list_ex_iff newOverrideWalker_def)
  from walk_sections_no_match [OF this sec]
  obtain nm where "walk_sections E H (OptionNameFunc c) (c_addr (original c)) ?w 0
                     (c_sections (original c))
                   = Inr (c_sections (original c), ?w\<lparr> w_currentSectionName := nm \<rparr>)"
    by blast
  then show ?thesis
    using assms(1,2) opts
    by (simp add: Override_def applyOverride_def unused_def elementObject_def newOverrideWalker_def)
qed

theorem delete_unknown_section_succeeds_witness:
  "Override plain_env no_hooks (New testConfig) delete_element
     = Inr \<lparr> e_value = None, e_element = [] \<rparr>"
proof -
  have d: "o_Delete delete_element" and v: "Validate delete_element = None"
    by (simp_all add: delete_element_def Validate_def)
  have n: "\<not> declares_section (original (New testConfig)) (o_Section delete_element)"
    by (simp add: delete_element_def declares_section_def testConfig_def New_def
                  getSectionName_def Tag_Get_def structTagKey_def)
  from delete_unknown_section_succeeds [OF d v n] show ?thesis .
qed

section \<open>Untagged top-level fields\<close>

lemma getSectionName_untagged:
  "Tag_Get t structTagKey = [] \<Longrightarrow> getSectionName n t = (n, False)"
  by (simp add: getSectionName_def)

lemma getSectionName_old_untagged:
  "Tag_Get t structTagKey = [] \<Longrightarrow> getSectionName_old n t = ([], True)"
  by (simp add: getSectionName_old_def)

text \<open>
  In the newer file the claim holds. \<open>Sections\<close> has an entry only under a name that a
  top-level field declares in its tag, and an \<open>Override\<close> whose section no field
  declares never yields a value.
\<close>

lemma sections_SliceElem_keys:
  "sections_SliceElem onf w p z x = Inr w' \<Longrightarrow>
     sw_currentSectionName w' = sw_currentSectionName w
     \<and> dom (sw_sections w') \<subseteq> dom (sw_sections w) \<union> ({sw_currentSectionName w} - {[]})"
  by (auto simp: sections_SliceElem_def split: if_splits option.splits)

lemma sections_elems_keys:
  "sections_elems onf w p z xs = Inr w' \<Longrightarrow>
     sw_currentSectionName w' = sw_currentSectionName w
     \<and> dom (sw_sections w') \<subseteq> dom (sw_sections w) \<union> ({sw_currentSectionName w} - {[]})"
proof (induction xs arbitrary: w)
  case Nil
  then show ?case by auto
next
  case (Cons x xs)
  from Cons.prems obtain w1 where 1: "sections_SliceElem onf w p z x = Inr w1"
    and 2: "sections_elems onf w1 p z xs = Inr w'"
    by (auto split: sum.splits)
  from sections_SliceElem_keys [OF 1] Cons.IH [OF 2]
  have "sw_currentSectionName w' = sw_currentSectionName w"
    and "dom (sw_sections w1) \<subseteq> dom (sw_sections w) \<union> ({sw_currentSectionName w} - {[]})"
    and "dom (sw_sections w') \<subseteq> dom (sw_sections w1) \<union> ({sw_currentSectionName w} - {[]})"
    by simp_all
  then show ?case by blast
qed

lemma sections_field_keys:
  "dom (sw_sections (sections_field w sf))
     \<subseteq> dom (sw_sections w) \<union> {n. getSectionName (s_name sf) (s_tag sf) = (n, True)}"
  "sw_currentSectionName (sections_field w sf) \<noteq> [] \<Longrightarrow>
     getSectionName (s_name sf) (s_tag sf) = (sw_currentSectionName (sections_field w sf), True)"
  by (auto simp: sections_field_def split: prod.splits if_splits)

lemma sections_walk_keys:
  "sections_walk onf w sfs = Inr w' \<Longrightarrow>
     dom (sw_sections w')
       \<subseteq> dom (sw_sections w)
          \<union> {n. \<exists>sf \<in> set sfs. getSectionName (s_name sf) (s_tag sf) = (n, True)}"
proof (induction sfs arbitrary: w)
  case Nil
  then show ?case by auto
next
  case (Cons sf sfs)
  let ?w0 = "sections_field w sf"
  from Cons.prems obtain w1 where
    1: "(case s_val sf of
           SecSlice p z (Some xs) \<Rightarrow> sections_elems onf ?w0 p z xs
         | _ \<Rightarrow> Inr ?w0) = Inr w1"
    and 2: "sections_walk onf w1 sfs = Inr w'"
    by (auto split: sum.splits)
  have "dom (sw_sections w1)
          \<subseteq> dom (sw_sections w) \<union> {n. getSectionName (s_name sf) (s_tag sf) = (n, True)}"
  proof (cases "\<exists>p z xs. s_val sf = SecSlice p z (Some xs)")
    case True
    then obtain p z xs where v: "s_val sf = SecSlice p z (Some xs)" by blast
    with 1 have "sections_elems onf ?w0 p z xs = Inr w1" by simp
    from sections_elems_keys [OF this]
    have a: "dom (sw_sections w1)
               \<subseteq> dom (sw_sections ?w0) \<union> ({sw_currentSectionName ?w0} - {[]})"
      by simp
    have b: "{sw_currentSectionName ?w0} - {[]}
               \<subseteq> {n. getSectionName (s_name sf) (s_tag sf) = (n, True)}"
      using sections_field_keys(2) [of w sf] by auto
    from a b sections_field_keys(1) [of w sf] show ?thesis by blast
  next
    case False
    with 1 have "w1 = ?w0"
      by (auto split: secval.splits option.splits)
    with sections_field_keys(1) [of w sf] show ?thesis by simp
  qed
  with Cons.IH [OF 2] show ?case by (simp add: subset_iff) blast
qed

lemma Sections_only_declared:
  assumes "Sections c = Inr m" and "m name \<noteq> None"
  shows "declares_section (original c) name"
proof -
  from assms(1) obtain w where
    w: "sections_walk (OptionNameFunc c) newSectionWalker (c_sections (original c)) = Inr w"
    and m: "m = sectionsMap w"
    by (auto simp: Sections_def split: sum.splits)
  from assms(2) m have "name \<in> dom (sw_sections w)"
    by (auto simp: sectionsMap_def)
  with sections_walk_keys [OF w] show ?thesis
    by (auto simp: newSectionWalker_def declares_section_def list_ex_iff)
qed

lemma Override_needs_declared_section:
  assumes "Override E H c r = Inr el" and "e_value el \<noteq> None"
  shows "declares_section (original c) (o_Section r)"
proof (rule ccontr)
  assume n: "\<not> declares_section (original c) (o_Section r)"
  from assms(1) have v: "Validate r = None"
    by (auto simp: Override_def applyOverride_def split: option.splits)
  then have sec: "o_Section (w_o (newOverrideWalker r)) \<noteq> []"
    by (auto simp: Validate_def newOverrideWalker_def split: if_splits)
  have "\<forall>sf \<in> set (c_sections (original c)).
          getSectionName (s_name sf) (s_tag sf) \<noteq> (o_Section (w_o (newOverrideWalker r)), True)"
    using n by (auto simp: declares_section_def list_ex_iff newOverrideWalker_def)
  from walk_sections_no_match [OF this sec]
  obtain nm where "walk_sections E H (OptionNameFunc c) (c_addr (original c)) (newOverrideWalker r) 0
                     (c_sections (original c))
                   = Inr (c_sections (original c), (newOverrideWalker r)\<lparr> w_currentSectionName := nm \<rparr>)"
    by blast
  with assms v show False
    by (auto simp: Override_def applyOverride_def elementObject_def newOverrideWalker_def
             split: if_splits option.splits)
qed

text \<open>
  Claim C4 (the older file departs from it). \<open>getSectionName\<close> of \<open>part_001\<close> answers
  \<open>ok\<close> for every field, with the empty name for a field without tag, so the untagged
  field \<open>Hostname\<close> of the object appears in the map of \<open>Sections\<close>, under the empty name.
\<close>

theorem untagged_field_listed_by_old_Sections:
  "Tag_Get [] structTagKey = []
   \<and> getSectionName_old ''Hostname'' [] = ([], True)
   \<and> Sections_old (NewService testConfig_hostname) []
       = Some (SecScalar (predeclared KString) (VString ''localhost''))"
  by (simp add: Sections_old_def NewService_def testConfig_hostname_def testConfig_def
                getSectionName_old_def Tag_Get_def structTagKey_def)

section \<open>Properties of the redactor\<close>

text \<open>
  On a settable value \<open>isZero\<close> is the structural notion of zero; on a value that is
  not settable it takes every struct for zero.
\<close>

lemma isZero_settable:
  "isZero True t v = structurally_zero t v"
  "isZero_elems True t vs = structurally_zero_elems t vs"
  "isZero_fields True fds vs = structurally_zero_fields fds vs"
  by (induction True t v and True t vs and True fds vs
      rule: isZero_isZero_elems_isZero_fields.induct)
     (auto split: val.splits)

lemma isZero_fields_not_settable: "isZero_fields False fds vs"
proof (induction fds arbitrary: vs)
  case Nil
  show ?case by simp
next
  case (Cons fd fds)
  then show ?case by (cases vs) simp_all
qed

text \<open>
  Claim C8 (the code departs from it). The element is a section held by value, so its
  fields are not settable. Its option \<open>Creds\<close> is tagged \<open>redact\<close> and holds a struct
  with a token, which is not the zero value; \<open>Redacted\<close> reports \<open>false\<close> for it. For
  the same struct behind a pointer it reports \<open>true\<close>.
\<close>

theorem redacted_struct_by_value_reads_zero:
  "isRedacted [(''override'', '',redact'')]
   \<and> \<not> structurally_zero Credentials (VStruct [VString ''secret''])
   \<and> Redacted OverrideFieldName (Some (SecStruct test_SectionCreds)) ''Creds''
       = Some (predeclared KBool, VBool False)
   \<and> Redacted OverrideFieldName (Some (SecPtr (Some test_SectionCreds))) ''Creds''
       = Some (predeclared KBool, VBool True)"
  by (simp add: Redacted_def test_SectionCreds_def Credentials_def OverrideFieldName_def
                tagFieldName_def Tag_Get_def structTagKey_def getRedactedValue_def isRedacted_def
                redactKeyword_def predeclared_def)

end
